theory Spec2Isabelle
  imports Main "HOL-Library.Word"
begin

unbundle bit_operations_syntax

section \<open>Build configuration\<close>

text \<open>
  \<^verbatim>\<open>src/main.cpp\<close> is compiled differently per platform and per Qt version: the
  preprocessor tests \<^verbatim>\<open>Q_OS_WIN32\<close>, \<^verbatim>\<open>Q_OS_MAC\<close>, \<^verbatim>\<open>__HAIKU__\<close>,
  \<^verbatim>\<open>QT_VERSION\<close> and \<^verbatim>\<open>QT_DEBUG\<close>. The platform macros exclude one another, so the
  platform is one value; \<open>OtherUnix\<close> is a build where none of the three is defined.
  \<open>std_exception_what\<close> is the text \<^verbatim>\<open>std::exception::what()\<close> returns for a plain
  \<^verbatim>\<open>std::exception\<close> object, which the C++ library of the build fixes.
\<close>

datatype platform = Win32 | MacOS | Haiku | OtherUnix

record build =
  os :: platform
  QT_VERSION :: nat
  QT_DEBUG :: bool
  std_exception_what :: string

section \<open>Text: QString, QByteArray and C strings\<close>

text \<open>
  A \<^verbatim>\<open>QString\<close> is a sequence of UTF-16 code units, a \<^verbatim>\<open>QByteArray\<close> or C string
  a sequence of bytes.
\<close>

type_synonym QChar = "16 word"
type_synonym QString = "QChar list"
type_synonym byte = "8 word"

text \<open>A string literal of the source (all of them are ASCII), as a QString and as bytes.\<close>

definition QString_lit :: "string \<Rightarrow> QString" where
  "QString_lit s = map of_char s"

definition cstr :: "string \<Rightarrow> byte list" where
  "cstr s = map of_char s"

text \<open>\<^verbatim>\<open>QString::toLatin1()\<close>: a code unit above 0xFF becomes \<^verbatim>\<open>'?'\<close>.\<close>

definition toLatin1 :: "QString \<Rightarrow> byte list" where
  "toLatin1 s = map (\<lambda>c. if 0xFF < c then 0x3F else ucast c) s"

text \<open>
  \<^verbatim>\<open>QByteArray::constData()\<close> read as a C string (by \<^verbatim>\<open>%s\<close> and by
  \<^verbatim>\<open>QString(const char *)\<close>): the bytes before the first NUL.
\<close>

definition constData :: "byte list \<Rightarrow> byte list" where
  "constData bs = takeWhile (\<lambda>b. b \<noteq> 0) bs"

text \<open>
  \<^verbatim>\<open>QString(const char *)\<close> is \<^verbatim>\<open>QString::fromUtf8\<close> in Qt 5 (the source requires
  Qt 5.0.0 at least). The decoder is Qt's, not this repository's; it is modelled after
  the UTF-8 standard: an ASCII byte is one code unit, a well-formed sequence of two to four
  bytes is its code point (two code units, a surrogate pair, above 0xFFFF), any other
  byte is U+FFFD, and a byte order mark at the very start is dropped.
\<close>

definition utf8_cont :: "byte \<Rightarrow> bool" where
  "utf8_cont c \<longleftrightarrow> c AND 0xC0 = 0x80"

definition utf8_payload :: "byte \<Rightarrow> nat" where
  "utf8_payload c = unat (c AND 0x3F)"

definition utf16_units :: "nat \<Rightarrow> QString" where
  "utf16_units cp =
     (if cp < 0x10000 then [of_nat cp]
      else [of_nat (0xD800 + (cp - 0x10000) div 0x400),
            of_nat (0xDC00 + (cp - 0x10000) mod 0x400)])"

fun utf8_sequence :: "byte \<Rightarrow> byte list \<Rightarrow> (nat \<times> nat) option" where
  "utf8_sequence b cs =
     (if 0xC2 \<le> b \<and> b \<le> 0xDF then
        (case cs of
           c1 # _ \<Rightarrow>
             if utf8_cont c1 then Some (unat (b AND 0x1F) * 0x40 + utf8_payload c1, 1)
             else None
         | _ \<Rightarrow> None)
      else if 0xE0 \<le> b \<and> b \<le> 0xEF then
        (case cs of
           c1 # c2 # _ \<Rightarrow>
             (let cp = (unat (b AND 0x0F) * 0x40 + utf8_payload c1) * 0x40 + utf8_payload c2
              in if utf8_cont c1 \<and> utf8_cont c2 \<and> 0x800 \<le> cp
                    \<and> \<not> (0xD800 \<le> cp \<and> cp \<le> 0xDFFF)
                 then Some (cp, 2) else None)
         | _ \<Rightarrow> None)
      else if 0xF0 \<le> b \<and> b \<le> 0xF4 then
        (case cs of
           c1 # c2 # c3 # _ \<Rightarrow>
             (let cp = ((unat (b AND 0x07) * 0x40 + utf8_payload c1) * 0x40
                         + utf8_payload c2) * 0x40 + utf8_payload c3
              in if utf8_cont c1 \<and> utf8_cont c2 \<and> utf8_cont c3
                    \<and> 0x10000 \<le> cp \<and> cp \<le> 0x10FFFF
                 then Some (cp, 3) else None)
         | _ \<Rightarrow> None)
      else None)"

fun utf8_decode :: "byte list \<Rightarrow> QString" where
  "utf8_decode [] = []"
| "utf8_decode (b # bs) =
     (if b < 0x80 then ucast b # utf8_decode bs
      else (case utf8_sequence b bs of
              Some (cp, n) \<Rightarrow> utf16_units cp @ utf8_decode (drop n bs)
            | None \<Rightarrow> 0xFFFD # utf8_decode bs))"

definition fromUtf8 :: "byte list \<Rightarrow> QString" where
  "fromUtf8 bs = utf8_decode (if take 3 bs = [0xEF, 0xBB, 0xBF] then drop 3 bs else bs)"

text \<open>\<^verbatim>\<open>QString(message.toLatin1().constData())\<close>, which the handler builds twice.\<close>

definition latin1_text :: "QString \<Rightarrow> QString" where
  "latin1_text message = fromUtf8 (constData (toLatin1 message))"

text \<open>\<^verbatim>\<open>QString::startsWith\<close> (case sensitive).\<close>

definition startsWith :: "QString \<Rightarrow> QString \<Rightarrow> bool" where
  "startsWith s p \<longleftrightarrow> take (length p) s = p"

text \<open>\<^verbatim>\<open>QChar::isSpace\<close> and \<^verbatim>\<open>QString::trimmed\<close>.\<close>

definition isSpace :: "QChar \<Rightarrow> bool" where
  "isSpace c \<longleftrightarrow>
     c = 0x20 \<or> (0x09 \<le> c \<and> c \<le> 0x0D) \<or> c = 0x85 \<or> c = 0xA0 \<or> c = 0x1680
     \<or> (0x2000 \<le> c \<and> c \<le> 0x200A) \<or> c = 0x2028 \<or> c = 0x2029 \<or> c = 0x202F
     \<or> c = 0x205F \<or> c = 0x3000"

definition trimmed :: "QString \<Rightarrow> QString" where
  "trimmed s = rev (dropWhile isSpace (rev (dropWhile isSpace s)))"

section \<open>Widgets\<close>

text \<open>
  An object is known by its address. The handler sees the focus widget through four
  \<^verbatim>\<open>dynamic_cast\<close>s; the four classes do not derive from one another, so a widget
  passes at most one of them, and \<open>cls\<close> says which (a subclass such as the code view,
  a \<^verbatim>\<open>QPlainTextEdit\<close>, passes the cast to its base). A combo box carries what
  \<^verbatim>\<open>QComboBox::lineEdit()\<close> returns: its embedded line edit, or the null pointer
  when it is not editable.
\<close>

type_synonym obj = nat

datatype widget_class =
    QPlainTextEdit
  | BookViewPreview
  | QLineEdit
  | QComboBox "obj option"
  | QWidget

record widget =
  addr :: obj
  cls :: widget_class

definition as_QPlainTextEdit :: "widget \<Rightarrow> obj option" where
  "as_QPlainTextEdit wd = (if cls wd = QPlainTextEdit then Some (addr wd) else None)"

definition as_BookViewPreview :: "widget \<Rightarrow> obj option" where
  "as_BookViewPreview wd = (if cls wd = BookViewPreview then Some (addr wd) else None)"

definition as_QLineEdit :: "widget \<Rightarrow> obj option" where
  "as_QLineEdit wd = (if cls wd = QLineEdit then Some (addr wd) else None)"

text \<open>The cast to \<^verbatim>\<open>QComboBox\<close>, giving the combo box's \<^verbatim>\<open>lineEdit()\<close>.\<close>

definition as_QComboBox :: "widget \<Rightarrow> obj option option" where
  "as_QComboBox wd = (case cls wd of QComboBox le \<Rightarrow> Some le | _ \<Rightarrow> None)"

section \<open>Calls and the world they run in\<close>

text \<open>
  What the code does is the sequence of calls it makes out of \<^verbatim>\<open>main.cpp\<close>, in
  order, each with the arguments that matter. The bodies of the application's other
  modules (\<^verbatim>\<open>Utility\<close>, \<^verbatim>\<open>PluginDB\<close>, \<^verbatim>\<open>TempFolder\<close>, ...) and of Qt are not in
  the source file, so a call to one of them is recorded and not looked into.
  \<open>QTextStream_append path text\<close> is the text the handler streams into the log file
  once \<^verbatim>\<open>QFile::open\<close> has succeeded; \<open>mac_menubar_setup\<close> stands for the menu bar
  built at lines 370 to 405; \<open>QT_REQUIRE_VERSION\<close> stands for the macro's test of the
  Qt library found at run time, which every Qt 5 passes; \<open>cout_line\<close> is a text and
  \<^verbatim>\<open>std::endl\<close> written to standard output; \<open>load_plugins_from_disk\<close> is the call
  \<^verbatim>\<open>VerifyPlugins\<close> makes.
\<close>

datatype translator = qtbaseTranslator | sigilTranslator

datatype effect =
    fprintf_stderr "byte list"
  | DisplayExceptionErrorDialog QString
  | QTimer_singleShot nat "obj option" string
  | QTextStream_append QString QString
  | QT_REQUIRE_VERSION
  | qInstallMessageHandler
  | setOrganizationName
  | setOrganizationDomain
  | setApplicationName
  | setApplicationVersion
  | setAttribute_DisableShaderDiskCache
  | MainApplication_ctor
  | setStartDragDistance
  | EmbeddedPython_instance
  | addToPythonSysPath_embeddedRoot
  | addToPythonSysPath_launcherRoot
  | addLibraryPath string
  | setCodecForLocale
  | SettingsStore_ctor
  | SettingsStore_uiLanguage
  | GetPossibleTranslationPaths
  | QTranslator_load translator QString QString
  | installTranslator translator
  | DefinePrefsDir
  | ReadUnicodeTextFile QString
  | setStyleSheet QString
  | setCursorFlashTime
  | setWindowIcon
  | setDesktopFileName
  | UpdateChecker_CheckForUpdate
  | installEventFilter
  | processEvents
  | mac_menubar_setup
  | basemw_show
  | GetPathToSigilScratchpad
  | cout_line QString
  | load_plugins_from_disk
  | IsFileReadable QString
  | MainWindow_ctor QString
  | MainWindow_show
  | app_exec

text \<open>
  A C++ exception, as the \<^verbatim>\<open>catch (std::exception e)\<close> of \<^verbatim>\<open>main\<close> tells them
  apart: one whose class derives from \<^verbatim>\<open>std::exception\<close>, or any other.
\<close>

datatype exn = StdException | OtherException

text \<open>
  The world holds what the calls answer: the state of the GUI, of the environment and
  of the file system when the code runs, and, for every call, whether it throws.
  \<^item> \<open>focusWidget\<close>: \<^verbatim>\<open>QApplication::focusWidget()\<close>, \<open>None\<close> for the null pointer;
  \<^item> \<open>getenv\<close>: the value of an environment variable, \<open>None\<close> when it is not set;
  \<^item> \<open>can_append\<close>: whether \<^verbatim>\<open>QFile::open\<close> for appending succeeds on a path;
  \<^item> \<open>dir_exists\<close>: \<^verbatim>\<open>QDir(path).exists()\<close>;
  \<^item> \<open>translator_loads name path\<close>: what \<^verbatim>\<open>QTranslator::load(name, path)\<close> returns;
  \<^item> \<open>translation_paths\<close>: \<^verbatim>\<open>UILanguage::GetPossibleTranslationPaths()\<close>;
  \<^item> \<open>uiLanguage\<close>: \<^verbatim>\<open>settings.uiLanguage()\<close>; \<open>prefs_dir\<close>: \<^verbatim>\<open>Utility::DefinePrefsDir()\<close>;
  \<^item> \<open>is_readable_file\<close>: \<^verbatim>\<open>exists() && isFile() && isReadable()\<close> of a
    \<^verbatim>\<open>QFileInfo\<close>; \<open>read_text\<close>: \<^verbatim>\<open>Utility::ReadUnicodeTextFile\<close>;
  \<^item> \<open>file_readable\<close>: what \<^verbatim>\<open>Utility::IsFileReadable\<close> returns;
  \<^item> \<open>startDragDistance\<close>: \<^verbatim>\<open>app.startDragDistance()\<close>;
  \<^item> \<open>process_arguments\<close>: \<^verbatim>\<open>QCoreApplication::arguments()\<close>, the program's name first;
  \<^item> \<open>initial_file_path\<close>: \<^verbatim>\<open>filter->getInitialFilePath()\<close> (macOS), and
    \<open>absoluteFilePath\<close>: \<^verbatim>\<open>QFileInfo(path).absoluteFilePath()\<close>;
  \<^item> \<open>scratchpad\<close>: \<^verbatim>\<open>TempFolder::GetPathToSigilScratchpad()\<close>;
  \<^item> \<open>exec_result\<close>: what \<^verbatim>\<open>app.exec()\<close> returns;
  \<^item> \<open>raises\<close>: the exception a call throws, \<open>None\<close> when it returns.
\<close>

record world =
  focusWidget :: "widget option"
  getenv :: "string \<Rightarrow> QString option"
  can_append :: "QString \<Rightarrow> bool"
  dir_exists :: "QString \<Rightarrow> bool"
  translator_loads :: "QString \<Rightarrow> QString \<Rightarrow> bool"
  translation_paths :: "QString list"
  uiLanguage :: QString
  prefs_dir :: QString
  is_readable_file :: "QString \<Rightarrow> bool"
  read_text :: "QString \<Rightarrow> QString"
  file_readable :: "QString \<Rightarrow> bool"
  startDragDistance :: int
  process_arguments :: "QString list"
  initial_file_path :: QString
  absoluteFilePath :: "QString \<Rightarrow> QString"
  scratchpad :: QString
  exec_result :: int
  raises :: "effect \<Rightarrow> exn option"

section \<open>The message handler\<close>

definition WIN_CLIPBOARD_ERROR :: QString where
  "WIN_CLIPBOARD_ERROR = QString_lit ''QClipboard::setMimeData: Failed to set data on clipboard''"

definition RETRY_DELAY_MS :: nat where
  "RETRY_DELAY_MS = 5"

datatype QtMsgType = QtDebugMsg | QtWarningMsg | QtCriticalMsg | QtFatalMsg | QtInfoMsg

text \<open>The handler returns, or the process dies in \<^verbatim>\<open>abort()\<close>.\<close>

datatype handled = Returned | Aborted

text \<open>
  The Windows block after the switch (lines 200 to 211).
  \<^verbatim>\<open>qEnvironmentVariableIsSet\<close> and \<^verbatim>\<open>qEnvironmentVariableIsEmpty\<close> read the
  variable; the file named by its trimmed value is opened for appending, and the
  stream writes \<^verbatim>\<open>win_debug_message\<close> and a newline. When the file cannot be opened
  the stream has no open device and nothing is written.
\<close>

definition log_block :: "build \<Rightarrow> world \<Rightarrow> QString \<Rightarrow> effect list" where
  "log_block b w win_debug_message =
     (if os b = Win32 then
        (case getenv w ''WINDOWS_SIGIL_DEBUG_LOGFILE'' of
           None \<Rightarrow> []
         | Some v \<Rightarrow>
             if v \<noteq> [] then
               (let sigil_log_file = trimmed v
                in if can_append w sigil_log_file
                   then [QTextStream_append sigil_log_file (win_debug_message @ [0x0A])]
                   else [])
             else [])
      else [])"

text \<open>
  The Critical case (lines 148 to 194). \<open>None\<close> is a \<^verbatim>\<open>break\<close> out of the switch
  with the retry scheduled; otherwise control reaches the dialog of line 193.
\<close>

definition clipboard_retry :: "build \<Rightarrow> world \<Rightarrow> QString \<Rightarrow> effect option" where
  "clipboard_retry b w error_message =
     (if os b = Win32 \<and> startsWith error_message WIN_CLIPBOARD_ERROR then
        (case focusWidget w of
           None \<Rightarrow> None
         | Some wd \<Rightarrow>
             (case as_QPlainTextEdit wd of
                Some textEdit \<Rightarrow> Some (QTimer_singleShot RETRY_DELAY_MS (Some textEdit) ''copy()'')
              | None \<Rightarrow>
             (case as_BookViewPreview wd of
                Some bookViewPreview \<Rightarrow>
                  Some (QTimer_singleShot RETRY_DELAY_MS (Some bookViewPreview) ''copy()'')
              | None \<Rightarrow>
             (case as_QLineEdit wd of
                Some lineEdit \<Rightarrow> Some (QTimer_singleShot RETRY_DELAY_MS (Some lineEdit) ''copy()'')
              | None \<Rightarrow>
             (case as_QComboBox wd of
                Some comboBox_lineEdit \<Rightarrow>
                  Some (QTimer_singleShot RETRY_DELAY_MS comboBox_lineEdit ''copy()'')
              | None \<Rightarrow> None)))))
      else None)"

definition critical_case :: "build \<Rightarrow> world \<Rightarrow> QString \<Rightarrow> effect list" where
  "critical_case b w message =
     (let error_message = latin1_text message
      in case clipboard_retry b w error_message of
           Some retry \<Rightarrow> [retry]
         | None \<Rightarrow>
             [DisplayExceptionErrorDialog (QString_lit ''Critical: '' @ error_message)])"

text \<open>
  \<^verbatim>\<open>MessageHandler\<close> (lines 128 to 212); the context argument is not used. The
  \<^verbatim>\<open>QtInfoMsg\<close> case is compiled from Qt 5.6 on; before, the switch has no case for
  it. \<^verbatim>\<open>win_debug_message\<close> is set in the Debug case only and is empty elsewhere.
\<close>

definition MessageHandler ::
  "build \<Rightarrow> world \<Rightarrow> QtMsgType \<Rightarrow> QString \<Rightarrow> effect list \<times> handled" where
  "MessageHandler b w type message =
     (case type of
        QtDebugMsg \<Rightarrow>
          (fprintf_stderr (cstr ''Debug: '' @ constData (toLatin1 message) @ [0x0A])
             # log_block b w (QString_lit ''Debug: '' @ latin1_text message),
           Returned)
      | QtInfoMsg \<Rightarrow>
          ((if 0x050600 \<le> QT_VERSION b
            then [fprintf_stderr (cstr ''Info: '' @ constData (toLatin1 message) @ [0x0A])]
            else []) @ log_block b w [],
           Returned)
      | QtWarningMsg \<Rightarrow>
          (fprintf_stderr (cstr ''Warning: '' @ constData (toLatin1 message) @ [0x0A])
             # log_block b w [],
           Returned)
      | QtCriticalMsg \<Rightarrow> (critical_case b w message @ log_block b w [], Returned)
      | QtFatalMsg \<Rightarrow>
          ([DisplayExceptionErrorDialog (QString_lit ''Fatal: '' @ message)], Aborted))"

text \<open>What a run shows of each kind: the lines on standard error, the modal dialogs,
  the timers armed and the text appended to the log file.\<close>

definition stderr_writes :: "effect list \<Rightarrow> byte list list" where
  "stderr_writes es = List.map_filter (\<lambda>e. case e of fprintf_stderr t \<Rightarrow> Some t | _ \<Rightarrow> None) es"

definition dialogs :: "effect list \<Rightarrow> QString list" where
  "dialogs es =
     List.map_filter (\<lambda>e. case e of DisplayExceptionErrorDialog t \<Rightarrow> Some t | _ \<Rightarrow> None) es"

definition retries :: "effect list \<Rightarrow> (nat \<times> obj option \<times> string) list" where
  "retries es =
     List.map_filter
       (\<lambda>e. case e of QTimer_singleShot ms receiver member \<Rightarrow> Some (ms, receiver, member)
                         | _ \<Rightarrow> None) es"

definition log_writes :: "effect list \<Rightarrow> (QString \<times> QString) list" where
  "log_writes es =
     List.map_filter (\<lambda>e. case e of QTextStream_append path t \<Rightarrow> Some (path, t) | _ \<Rightarrow> None) es"

section \<open>Translation lookup\<close>

text \<open>
  The loop of lines 277 to 283 over \<^verbatim>\<open>UILanguage::GetPossibleTranslationPaths()\<close>:
  a directory that does not exist is passed over, \<^verbatim>\<open>qtbaseTranslator.load\<close> is tried
  in one that exists, and the first success leaves the loop. The result is the
  directories in which a load was tried, in the order of the tries, and the directory
  the translation was loaded from, if any.
\<close>

fun qtbaseTranslator_loop ::
  "world \<Rightarrow> QString \<Rightarrow> QString list \<Rightarrow> QString list \<times> QString option" where
  "qtbaseTranslator_loop w qm_name_qtbase [] = ([], None)"
| "qtbaseTranslator_loop w qm_name_qtbase (path # paths) =
     (if dir_exists w path then
        (if translator_loads w qm_name_qtbase path then ([path], Some path)
         else (case qtbaseTranslator_loop w qm_name_qtbase paths of
                 (tried, loaded) \<Rightarrow> (path # tried, loaded)))
      else qtbaseTranslator_loop w qm_name_qtbase paths)"

text \<open>The loop of lines 291 to 297, for \<^verbatim>\<open>sigilTranslator\<close>.\<close>

fun sigilTranslator_loop ::
  "world \<Rightarrow> QString \<Rightarrow> QString list \<Rightarrow> QString list \<times> QString option" where
  "sigilTranslator_loop w qm_name [] = ([], None)"
| "sigilTranslator_loop w qm_name (path # paths) =
     (if dir_exists w path then
        (if translator_loads w qm_name path then ([path], Some path)
         else (case sigilTranslator_loop w qm_name paths of
                 (tried, loaded) \<Rightarrow> (path # tried, loaded)))
      else sigilTranslator_loop w qm_name paths)"

text \<open>
  The resolver as the specification words it, for comparison with the two loops: the
  resource is loaded from the first candidate directory that exists and loads; a load is
  attempted in the existing directories before it and in it, in list order, and in no
  other.
\<close>

definition loadable :: "world \<Rightarrow> QString \<Rightarrow> QString \<Rightarrow> bool" where
  "loadable w name path \<longleftrightarrow> dir_exists w path \<and> translator_loads w name path"

definition ResourceResolver ::
  "world \<Rightarrow> QString \<Rightarrow> QString list \<Rightarrow> QString list \<times> QString option" where
  "ResourceResolver w name candidates =
     (let loaded = find (loadable w name) candidates;
          before = takeWhile (\<lambda>p. \<not> loadable w name p) candidates
      in (filter (dir_exists w) before @ (case loaded of None \<Rightarrow> [] | Some p \<Rightarrow> [p]), loaded))"

section \<open>Start-up\<close>

text \<open>\<^verbatim>\<open>VerifyPlugins\<close> (lines 215 to 219).\<close>

definition VerifyPlugins :: "effect list" where
  "VerifyPlugins = [load_plugins_from_disk]"

text \<open>
  \<^verbatim>\<open>GetMainWindow\<close> (lines 68 to 76): the calls it makes and the path it gives the
  window. \<^verbatim>\<open>Utility::IsFileReadable\<close> is called only when there is a second
  argument; the world says what it answers.
\<close>

definition GetMainWindow_filepath :: "world \<Rightarrow> QString list \<Rightarrow> QString" where
  "GetMainWindow_filepath w arguments =
     (if 1 < length arguments \<and> file_readable w (arguments ! 1) then arguments ! 1 else [])"

definition GetMainWindow :: "world \<Rightarrow> QString list \<Rightarrow> effect list" where
  "GetMainWindow w arguments =
     (if 1 < length arguments then [IsFileReadable (arguments ! 1)] else [])
     @ [MainWindow_ctor (GetMainWindow_filepath w arguments)]"

text \<open>
  The argument list \<^verbatim>\<open>main\<close> works with (lines 340 to 353): the process's arguments,
  to which the macOS build appends the path of a file-open event received at start-up
  when no argument was given.
\<close>

definition startup_arguments :: "build \<Rightarrow> world \<Rightarrow> QString list" where
  "startup_arguments b w =
     (let arguments = process_arguments w
      in if os b = MacOS \<and> length arguments = 1 \<and> initial_file_path w \<noteq> []
         then arguments @ [absoluteFilePath w (initial_file_path w)]
         else arguments)"

text \<open>The calls of \<^verbatim>\<open>main\<close> before its \<^verbatim>\<open>try\<close> block (lines 225 to 260).\<close>

definition before_try :: "build \<Rightarrow> world \<Rightarrow> effect list" where
  "before_try b w =
     [QT_REQUIRE_VERSION]
     @ (if QT_DEBUG b then [] else [qInstallMessageHandler])
     @ [setOrganizationName, setOrganizationDomain, setApplicationName, setApplicationVersion]
     @ (if 0x050900 \<le> QT_VERSION b then [setAttribute_DisableShaderDiskCache] else [])
     @ [MainApplication_ctor]
     @ (if startDragDistance w < 50 then [setStartDragDistance] else [])
     @ [EmbeddedPython_instance, addToPythonSysPath_embeddedRoot,
        addToPythonSysPath_launcherRoot]"

text \<open>The two translators (lines 272 to 298).\<close>

definition install_translations :: "world \<Rightarrow> effect list" where
  "install_translations w =
     (let qm_name_qtbase = QString_lit ''qtbase_'' @ uiLanguage w;
          qm_name = QString_lit ''sigil_'' @ uiLanguage w
      in [SettingsStore_uiLanguage, GetPossibleTranslationPaths]
         @ map (QTranslator_load qtbaseTranslator qm_name_qtbase)
             (fst (qtbaseTranslator_loop w qm_name_qtbase (translation_paths w)))
         @ [installTranslator qtbaseTranslator]
         @ [SettingsStore_uiLanguage, GetPossibleTranslationPaths]
         @ map (QTranslator_load sigilTranslator qm_name)
             (fst (sigilTranslator_loop w qm_name (translation_paths w)))
         @ [installTranslator sigilTranslator])"

text \<open>
  The \<^verbatim>\<open>try\<close> block up to the test for \<^verbatim>\<open>-t\<close> (lines 264 to 353).
  \<open>is_readable_file\<close> is the three tests on the style sheet's \<^verbatim>\<open>QFileInfo\<close>.
\<close>

definition try_prefix :: "build \<Rightarrow> world \<Rightarrow> effect list" where
  "try_prefix b w =
     [addLibraryPath ''codecs'', addLibraryPath ''iconengines'', addLibraryPath ''imageformats'',
      setCodecForLocale, SettingsStore_ctor]
     @ install_translations w
     @ [DefinePrefsDir]
     @ (let qt_stylesheet_path = prefs_dir w @ QString_lit ''/qt_styles.qss''
        in if is_readable_file w qt_stylesheet_path
           then [ReadUnicodeTextFile qt_stylesheet_path,
                 setStyleSheet (read_text w qt_stylesheet_path)]
           else [])
     @ (if getenv w ''SIGIL_DISABLE_CURSOR_BLINK'' \<noteq> None then [setCursorFlashTime] else [])
     @ (if os b \<noteq> Win32 \<and> os b \<noteq> MacOS
        then setWindowIcon # (if 0x050700 \<le> QT_VERSION b then [setDesktopFileName] else [])
        else [])
     @ (if os b \<noteq> Haiku then [UpdateChecker_CheckForUpdate] else [])
     @ [installEventFilter]
     @ (if os b = MacOS then [processEvents] else [])"

text \<open>
  The rest of the block (lines 355 to 413): the calls, and the value \<^verbatim>\<open>main\<close>
  returns after them.
\<close>

definition try_rest :: "build \<Rightarrow> world \<Rightarrow> effect list \<times> int" where
  "try_rest b w =
     (let arguments = startup_arguments b w
      in if QString_lit ''-t'' \<in> set arguments
         then ([GetPathToSigilScratchpad, cout_line (scratchpad w)], 1)
         else ((if os b = MacOS then [mac_menubar_setup, basemw_show] else [])
               @ VerifyPlugins
               @ GetMainWindow w arguments
               @ [MainWindow_show, app_exec],
               exec_result w))"

definition try_block :: "build \<Rightarrow> world \<Rightarrow> effect list \<times> int" where
  "try_block b w = (try_prefix b w @ fst (try_rest b w), snd (try_rest b w))"

text \<open>
  Running a sequence of calls: the first call that throws ends it, and the calls after
  it are not made.
\<close>

fun perform :: "world \<Rightarrow> effect list \<Rightarrow> effect list \<times> exn option" where
  "perform w [] = ([], None)"
| "perform w (c # cs) =
     (case raises w c of
        Some x \<Rightarrow> ([], Some x)
      | None \<Rightarrow> (case perform w cs of (made, thrown) \<Rightarrow> (c # made, thrown)))"

text \<open>
  How the process ends: \<^verbatim>\<open>main\<close> returns a status, or an exception leaves
  \<^verbatim>\<open>main\<close> and the C++ runtime terminates the process.
\<close>

datatype ending = Exit int | Terminate exn

text \<open>
  \<^verbatim>\<open>main\<close> (lines 223 to 418). The handler \<^verbatim>\<open>catch (std::exception e)\<close> takes
  the exceptions of the \<^verbatim>\<open>try\<close> block whose class derives from
  \<^verbatim>\<open>std::exception\<close>, by value, so that \<^verbatim>\<open>e.what()\<close> is the text of the base
  class.
\<close>

definition main :: "build \<Rightarrow> world \<Rightarrow> effect list \<times> ending" where
  "main b w =
     (case perform w (before_try b w) of
        (made, Some x) \<Rightarrow> (made, Terminate x)
      | (made, None) \<Rightarrow>
          (case perform w (fst (try_block b w)) of
             (made', None) \<Rightarrow> (made @ made', Exit (snd (try_block b w)))
           | (made', Some OtherException) \<Rightarrow> (made @ made', Terminate OtherException)
           | (made', Some StdException) \<Rightarrow>
               (case perform w [DisplayExceptionErrorDialog (QString_lit (std_exception_what b))] of
                  (shown, None) \<Rightarrow> (made @ made' @ shown, Exit 1)
                | (shown, Some y) \<Rightarrow> (made @ made' @ shown, Terminate y))))"

text \<open>What a run of \<^verbatim>\<open>main\<close> shows: the lines on standard output, and the paths the
  main windows were constructed with.\<close>

definition stdout_lines :: "effect list \<Rightarrow> QString list" where
  "stdout_lines es = List.map_filter (\<lambda>e. case e of cout_line t \<Rightarrow> Some t | _ \<Rightarrow> None) es"

definition main_windows :: "effect list \<Rightarrow> QString list" where
  "main_windows es = List.map_filter (\<lambda>e. case e of MainWindow_ctor p \<Rightarrow> Some p | _ \<Rightarrow> None) es"

section \<open>Notions the properties are stated with\<close>

text \<open>
  The widgets the recovery path handles are those that pass one of the four casts. The
  retry is addressed to the widget itself, except for a combo box, where it is addressed
  to what \<^verbatim>\<open>lineEdit()\<close> returns.
\<close>

definition supported_kind :: "widget \<Rightarrow> bool" where
  "supported_kind wd \<longleftrightarrow> cls wd \<noteq> QWidget"

definition retry_receiver :: "widget \<Rightarrow> obj option" where
  "retry_receiver wd = (case cls wd of QComboBox le \<Rightarrow> le | _ \<Rightarrow> Some (addr wd))"

text \<open>
  What the armed timers call when they fire. \<^verbatim>\<open>QTimer::singleShot\<close> (Qt's, not this
  repository's) arms a timer only for a receiver that is not null, and the timer calls
  the slot on that receiver.
\<close>

definition slot_invocations :: "effect list \<Rightarrow> (obj \<times> string) list" where
  "slot_invocations es =
     List.map_filter
       (\<lambda>e. case e of QTimer_singleShot ms (Some receiver) member \<Rightarrow> Some (receiver, member)
                         | _ \<Rightarrow> None) es"

text \<open>
  The log file, when the environment names one that can be written: the variable is set,
  its value is not empty, and the file of that name (trimmed) opens for appending.
\<close>

definition log_target :: "world \<Rightarrow> QString option" where
  "log_target w =
     (case getenv w ''WINDOWS_SIGIL_DEBUG_LOGFILE'' of
        None \<Rightarrow> None
      | Some v \<Rightarrow> if v \<noteq> [] \<and> can_append w (trimmed v) then Some (trimmed v) else None)"

section \<open>Example builds and worlds\<close>

definition linux_build :: build where
  "linux_build = \<lparr>os = OtherUnix, QT_VERSION = 0x050C03, QT_DEBUG = False,
                   std_exception_what = ''std::exception''\<rparr>"

definition windows_build :: build where
  "windows_build = \<lparr>os = Win32, QT_VERSION = 0x050C03, QT_DEBUG = False,
                     std_exception_what = ''Unknown exception''\<rparr>"

definition mac_build :: build where
  "mac_build = \<lparr>os = MacOS, QT_VERSION = 0x050C03, QT_DEBUG = False,
                 std_exception_what = ''std::exception''\<rparr>"

text \<open>
  A world in which nothing is there: no focus widget, no environment variable, no
  translation directory, no readable file, no argument but the program's name, and no
  call that throws.
\<close>

definition quiet_world :: world where
  "quiet_world =
     \<lparr>focusWidget = None, getenv = (\<lambda>_. None), can_append = (\<lambda>_. False),
      dir_exists = (\<lambda>_. False), translator_loads = (\<lambda>_ _. False), translation_paths = [],
      uiLanguage = QString_lit ''en'', prefs_dir = QString_lit ''/prefs'',
      is_readable_file = (\<lambda>_. False), read_text = (\<lambda>_. []), file_readable = (\<lambda>_. False),
      startDragDistance = 10, process_arguments = [QString_lit ''sigil''],
      initial_file_path = [], absoluteFilePath = (\<lambda>p. p),
      scratchpad = QString_lit ''/tmp/scratch'', exec_result = 0, raises = (\<lambda>_. None)\<rparr>"

text \<open>The same with the focus in a code view, a \<^verbatim>\<open>QPlainTextEdit\<close>.\<close>

definition editing_world :: world where
  "editing_world = quiet_world\<lparr>focusWidget := Some \<lparr>addr = 7, cls = QPlainTextEdit\<rparr>\<rparr>"

text \<open>The same with the log file variable set to a file that can be written.\<close>

definition logging_world :: world where
  "logging_world =
     quiet_world\<lparr>getenv := (\<lambda>n. if n = ''WINDOWS_SIGIL_DEBUG_LOGFILE''
                                  then Some (QString_lit '' C:/sigil.log '') else None),
                  can_append := (\<lambda>p. p = QString_lit ''C:/sigil.log'')\<rparr>"

text \<open>The same with the focus in a combo box whose \<^verbatim>\<open>lineEdit()\<close> is given.\<close>

definition combo_world :: "obj option \<Rightarrow> world" where
  "combo_world le = quiet_world\<lparr>focusWidget := Some \<lparr>addr = 11, cls = QComboBox le\<rparr>\<rparr>"

text \<open>
  Four candidate directories: \<^verbatim>\<open>/a\<close> does not exist, \<^verbatim>\<open>/b\<close> exists and holds no
  translation, \<^verbatim>\<open>/c\<close> and \<^verbatim>\<open>/d\<close> hold the one named \<^verbatim>\<open>qtbase_en\<close>.
\<close>

definition translations_world :: world where
  "translations_world =
     quiet_world\<lparr>translation_paths :=
                    [QString_lit ''/a'', QString_lit ''/b'', QString_lit ''/c'', QString_lit ''/d''],
                  dir_exists := (\<lambda>p. p \<noteq> QString_lit ''/a''),
                  translator_loads :=
                    (\<lambda>n p. n = QString_lit ''qtbase_en''
                           \<and> (p = QString_lit ''/c'' \<or> p = QString_lit ''/d''))\<rparr>"

text \<open>The process is started with \<^verbatim>\<open>-t\<close>.\<close>

definition scratchpad_world :: world where
  "scratchpad_world = quiet_world\<lparr>process_arguments := [QString_lit ''sigil'', QString_lit ''-t'']\<rparr>"

text \<open>A call before the \<^verbatim>\<open>try\<close> block throws; the plugin scan throws.\<close>

definition python_fails_world :: world where
  "python_fails_world =
     quiet_world\<lparr>raises := (\<lambda>c. if c = EmbeddedPython_instance then Some StdException else None)\<rparr>"

definition plugins_fail_world :: "exn \<Rightarrow> world" where
  "plugins_fail_world x =
     quiet_world\<lparr>raises := (\<lambda>c. if c = load_plugins_from_disk then Some x else None)\<rparr>"

text \<open>
  No argument, and a file-open event at start-up; and the same file as the first
  argument.
\<close>

definition file_open_world :: world where
  "file_open_world =
     quiet_world\<lparr>initial_file_path := QString_lit ''/b.epub'',
                  file_readable := (\<lambda>p. p = QString_lit ''/b.epub'')\<rparr>"

definition book_world :: world where
  "book_world =
     quiet_world\<lparr>process_arguments := [QString_lit ''sigil'', QString_lit ''/b.epub''],
                  file_readable := (\<lambda>p. p = QString_lit ''/b.epub'')\<rparr>"

section \<open>Facts about the text conversions\<close>

lemma unat_ucast_down: "unat (c::16 word) < 256 \<Longrightarrow> unat (ucast c :: 8 word) = unat c"
  by (simp add: unsigned_ucast_eq take_bit_nat_eq_self)

lemma unat_ucast_up: "unat (ucast (b::8 word) :: 16 word) = unat b"
proof -
  have "unat b < 2 ^ 8" using unsigned_less[of b] by simp
  then have "unat b < 2 ^ 16" by simp
  then show ?thesis by (simp add: unsigned_ucast_eq take_bit_nat_eq_self)
qed

lemma ucast_ascii_less: "(c::16 word) < 0x80 \<Longrightarrow> (ucast c :: 8 word) < 0x80"
  by (simp add: word_less_nat_alt unat_ucast_down)

lemma ucast_ascii_back: "(c::16 word) < 0x80 \<Longrightarrow> (ucast (ucast c :: 8 word) :: 16 word) = c"
  by (simp add: word_unat_eq_iff word_less_nat_alt unat_ucast_up unat_ucast_down)

lemma ucast_ascii_nonzero: "(c::16 word) < 0x80 \<Longrightarrow> c \<noteq> 0 \<Longrightarrow> (ucast c :: 8 word) \<noteq> 0"
  by (metis ucast_ascii_back ucast_0)

lemma utf8_decode_ascii:
  "\<forall>b\<in>set bs. b < 0x80 \<Longrightarrow> utf8_decode (bs @ cs) = map ucast bs @ utf8_decode cs"
  by (induction bs) auto

lemma toLatin1_append: "toLatin1 (p @ r) = toLatin1 p @ toLatin1 r"
  by (simp add: toLatin1_def)

lemma toLatin1_ascii: "\<forall>c\<in>set p. c < 0x80 \<Longrightarrow> toLatin1 p = map ucast p"
  unfolding toLatin1_def
  apply (rule map_cong, simp)
  apply (auto simp: word_less_nat_alt)
  done

lemma constData_prefix:
  "\<forall>b\<in>set bs. b \<noteq> 0 \<Longrightarrow> constData (bs @ cs) = bs @ constData cs"
  by (simp add: constData_def takeWhile_append2)

lemma fromUtf8_ascii_head:
  "b < 0x80 \<Longrightarrow> fromUtf8 (b # bs) = utf8_decode (b # bs)"
  unfolding fromUtf8_def
  by (cases bs; cases "tl bs"; auto)

lemma latin1_text_prefix:
  assumes "\<forall>c\<in>set p. c \<noteq> 0 \<and> c < 0x80" and "p \<noteq> []"
  shows "latin1_text (p @ r) = p @ utf8_decode (constData (toLatin1 r))"
proof -
  let ?bs = "map ucast p :: byte list"
  have lat: "toLatin1 (p @ r) = ?bs @ toLatin1 r"
    using assms(1) by (simp add: toLatin1_append toLatin1_ascii)
  have nz: "\<forall>b\<in>set ?bs. b \<noteq> 0" using assms(1) by (auto simp: ucast_ascii_nonzero)
  have lt: "\<forall>b\<in>set ?bs. b < 0x80" using assms(1) by (auto simp: ucast_ascii_less)
  have cd: "constData (toLatin1 (p @ r)) = ?bs @ constData (toLatin1 r)"
    by (simp add: lat constData_prefix nz)
  obtain c p' where p: "p = c # p'" using assms(2) by (cases p) auto
  have "fromUtf8 (?bs @ constData (toLatin1 r)) = utf8_decode (?bs @ constData (toLatin1 r))"
    using lt by (simp add: p fromUtf8_ascii_head)
  also have "\<dots> = map ucast ?bs @ utf8_decode (constData (toLatin1 r))"
    using lt by (rule utf8_decode_ascii)
  also have "map ucast ?bs = p"
    using assms(1) by (induction p) (auto simp: ucast_ascii_back)
  finally show ?thesis by (simp add: latin1_text_def cd)
qed

lemma WIN_CLIPBOARD_ERROR_ascii: "\<forall>c\<in>set WIN_CLIPBOARD_ERROR. c \<noteq> 0 \<and> c < 0x80"
  by (simp add: WIN_CLIPBOARD_ERROR_def QString_lit_def)

lemma WIN_CLIPBOARD_ERROR_nonempty: "WIN_CLIPBOARD_ERROR \<noteq> []"
  by (simp add: WIN_CLIPBOARD_ERROR_def QString_lit_def)

lemma startsWith_latin1_text:
  assumes "startsWith message WIN_CLIPBOARD_ERROR"
  shows "startsWith (latin1_text message) WIN_CLIPBOARD_ERROR"
proof -
  from assms obtain r where m: "message = WIN_CLIPBOARD_ERROR @ r"
    unfolding startsWith_def by (metis append_take_drop_id)
  show ?thesis
    unfolding m startsWith_def
    by (simp add: latin1_text_prefix[OF WIN_CLIPBOARD_ERROR_ascii WIN_CLIPBOARD_ERROR_nonempty])
qed

lemma latin1_text_ascii:
  assumes "\<forall>c\<in>set m. c \<noteq> 0 \<and> c < 0x80"
  shows "latin1_text m = m"
proof (cases m)
  case Nil
  then show ?thesis by (simp add: latin1_text_def toLatin1_def constData_def fromUtf8_def)
next
  case (Cons a list)
  then have "m \<noteq> []" by simp
  from latin1_text_prefix[OF assms this, of "[]"] show ?thesis
    by (simp add: toLatin1_def constData_def)
qed

section \<open>Facts about the message handler\<close>

lemma stderr_writes_Nil: "stderr_writes [] = []"
  by (simp add: stderr_writes_def)
lemma stderr_writes_Cons:
  "stderr_writes (e # es) = (case e of fprintf_stderr t \<Rightarrow> [t] | _ \<Rightarrow> []) @ stderr_writes es"
  by (simp add: stderr_writes_def split: effect.splits)
lemma stderr_writes_append: "stderr_writes (xs @ ys) = stderr_writes xs @ stderr_writes ys"
  by (simp add: stderr_writes_def map_filter_def)

lemma dialogs_Nil: "dialogs [] = []"
  by (simp add: dialogs_def)
lemma dialogs_Cons:
  "dialogs (e # es) = (case e of DisplayExceptionErrorDialog t \<Rightarrow> [t] | _ \<Rightarrow> []) @ dialogs es"
  by (simp add: dialogs_def split: effect.splits)
lemma dialogs_append: "dialogs (xs @ ys) = dialogs xs @ dialogs ys"
  by (simp add: dialogs_def map_filter_def)

lemma retries_Nil: "retries [] = []"
  by (simp add: retries_def)
lemma retries_Cons:
  "retries (e # es) =
     (case e of QTimer_singleShot ms r m \<Rightarrow> [(ms, r, m)] | _ \<Rightarrow> []) @ retries es"
  by (simp add: retries_def split: effect.splits)
lemma retries_append: "retries (xs @ ys) = retries xs @ retries ys"
  by (simp add: retries_def map_filter_def)

lemma log_writes_Nil: "log_writes [] = []"
  by (simp add: log_writes_def)
lemma log_writes_Cons:
  "log_writes (e # es) =
     (case e of QTextStream_append p t \<Rightarrow> [(p, t)] | _ \<Rightarrow> []) @ log_writes es"
  by (simp add: log_writes_def split: effect.splits)
lemma log_writes_append: "log_writes (xs @ ys) = log_writes xs @ log_writes ys"
  by (simp add: log_writes_def map_filter_def)

lemmas shown_simps =
  stderr_writes_Nil stderr_writes_Cons stderr_writes_append
  dialogs_Nil dialogs_Cons dialogs_append
  retries_Nil retries_Cons retries_append
  log_writes_Nil log_writes_Cons log_writes_append

lemma log_block_cases:
  "log_block b w t =
     (case (if os b = Win32 then log_target w else None) of
        Some f \<Rightarrow> [QTextStream_append f (t @ [0x0A])]
      | None \<Rightarrow> [])"
  by (simp add: log_block_def log_target_def Let_def split: option.splits)

lemma log_block_silent:
  "stderr_writes (log_block b w t) = []" "dialogs (log_block b w t) = []"
  "retries (log_block b w t) = []"
  by (simp_all add: log_block_cases shown_simps split: option.splits)

lemma log_writes_log_block:
  "log_writes (log_block b w t) =
     (case (if os b = Win32 then log_target w else None) of
        Some f \<Rightarrow> [(f, t @ [0x0A])]
      | None \<Rightarrow> [])"
  by (simp add: log_block_cases shown_simps split: option.splits)

lemma critical_case_shape:
  "critical_case b w message =
     (case clipboard_retry b w (latin1_text message) of
        Some retry \<Rightarrow> [retry]
      | None \<Rightarrow> [DisplayExceptionErrorDialog (QString_lit ''Critical: '' @ latin1_text message)])"
  by (simp add: critical_case_def Let_def)

lemma clipboard_retry_cases:
  "clipboard_retry b w e =
     (if os b = Win32 \<and> startsWith e WIN_CLIPBOARD_ERROR then
        (case focusWidget w of
           None \<Rightarrow> None
         | Some wd \<Rightarrow>
             if supported_kind wd
             then Some (QTimer_singleShot RETRY_DELAY_MS (retry_receiver wd) ''copy()'')
             else None)
      else None)"
  by (auto simp: clipboard_retry_def supported_kind_def retry_receiver_def as_QPlainTextEdit_def
        as_BookViewPreview_def as_QLineEdit_def as_QComboBox_def
      split: option.splits widget_class.splits)

lemma critical_case_cases:
  "critical_case b w message =
     (case (if os b = Win32 \<and> startsWith (latin1_text message) WIN_CLIPBOARD_ERROR
            then focusWidget w else None) of
        None \<Rightarrow> [DisplayExceptionErrorDialog (QString_lit ''Critical: '' @ latin1_text message)]
      | Some wd \<Rightarrow>
          if supported_kind wd
          then [QTimer_singleShot RETRY_DELAY_MS (retry_receiver wd) ''copy()'']
          else [DisplayExceptionErrorDialog (QString_lit ''Critical: '' @ latin1_text message)])"
  by (simp add: critical_case_shape clipboard_retry_cases split: option.splits)

lemma critical_case_stderr: "stderr_writes (critical_case b w message) = []"
  by (simp add: critical_case_cases shown_simps split: option.splits)

lemma editing_world_focus:
  "focusWidget editing_world = Some \<lparr>addr = 7, cls = QPlainTextEdit\<rparr>"
  by (simp add: editing_world_def)

lemma slot_invocations_single:
  "slot_invocations [QTimer_singleShot ms r m] = (case r of None \<Rightarrow> [] | Some x \<Rightarrow> [(x, m)])"
  by (simp add: slot_invocations_def split: option.splits)

lemma slot_invocations_timer:
  "slot_invocations (QTimer_singleShot ms r m # es) =
     (case r of None \<Rightarrow> [] | Some x \<Rightarrow> [(x, m)]) @ slot_invocations es"
  by (simp add: slot_invocations_def split: option.splits)

lemma log_target_quiet_world: "log_target quiet_world = None"
  by (simp add: log_target_def quiet_world_def)

lemma slot_invocations_append:
  "slot_invocations (xs @ ys) = slot_invocations xs @ slot_invocations ys"
  by (simp add: slot_invocations_def map_filter_def)

lemma slot_invocations_log_block: "slot_invocations (log_block b w t) = []"
  by (simp add: log_block_cases slot_invocations_def split: option.splits)

lemma MessageHandler_Debug:
  "MessageHandler b w QtDebugMsg message =
     (fprintf_stderr (cstr ''Debug: '' @ constData (toLatin1 message) @ [0x0A])
        # log_block b w (QString_lit ''Debug: '' @ latin1_text message), Returned)"
  by (simp add: MessageHandler_def)

lemma log_target_logging_world: "log_target logging_world = Some (QString_lit ''C:/sigil.log'')"
  by (simp add: log_target_def logging_world_def quiet_world_def trimmed_def isSpace_def
        QString_lit_def)

lemma log_writes_not_Win32:
  "os b \<noteq> Win32 \<Longrightarrow> log_writes (fst (MessageHandler b w type message)) = []"
  by (cases type)
     (simp_all add: MessageHandler_def shown_simps log_writes_log_block critical_case_cases
        split: option.splits)

lemma windows_build_os: "os windows_build = Win32"
  by (simp add: windows_build_def)

section \<open>Facts about the translation lookup\<close>

lemma qtbaseTranslator_loop_first:
  "k < length paths \<Longrightarrow> loadable w name (paths ! k)
   \<Longrightarrow> \<forall>j<k. \<not> loadable w name (paths ! j)
   \<Longrightarrow> qtbaseTranslator_loop w name paths
       = (filter (dir_exists w) (take (Suc k) paths), Some (paths ! k))"
proof (induction paths arbitrary: k)
  case Nil
  then show ?case by simp
next
  case (Cons p ps)
  show ?case
  proof (cases k)
    case 0
    with Cons.prems show ?thesis by (simp add: loadable_def)
  next
    case (Suc k')
    have not_p: "\<not> loadable w name p" using Cons.prems(3) Suc by auto
    have "k' < length ps" using Cons.prems(1) Suc by simp
    moreover have "loadable w name (ps ! k')" using Cons.prems(2) Suc by simp
    moreover have "\<forall>j<k'. \<not> loadable w name (ps ! j)"
    proof (intro allI impI)
      fix j assume "j < k'"
      then have "Suc j < k" using Suc by simp
      with Cons.prems(3) have "\<not> loadable w name ((p # ps) ! Suc j)" by blast
      then show "\<not> loadable w name (ps ! j)" by simp
    qed
    ultimately have IH: "qtbaseTranslator_loop w name ps
        = (filter (dir_exists w) (take (Suc k') ps), Some (ps ! k'))"
      by (rule Cons.IH)
    show ?thesis using not_p by (simp add: Suc IH loadable_def)
  qed
qed

lemma qtbaseTranslator_loop_none:
  "\<forall>p\<in>set paths. \<not> loadable w name p
   \<Longrightarrow> qtbaseTranslator_loop w name paths = (filter (dir_exists w) paths, None)"
  by (induction paths) (auto simp: loadable_def)

lemma qtbaseTranslator_loop_resolver:
  "qtbaseTranslator_loop w name candidates = ResourceResolver w name candidates"
  by (induction candidates) (auto simp: ResourceResolver_def loadable_def Let_def split: option.splits)

lemma sigilTranslator_loop_resolver:
  "sigilTranslator_loop w name candidates = ResourceResolver w name candidates"
  by (induction candidates) (auto simp: ResourceResolver_def loadable_def Let_def split: option.splits)

section \<open>Facts about start-up\<close>

lemma perform_all: "\<forall>c\<in>set cs. raises w c = None \<Longrightarrow> perform w cs = (cs, None)"
  by (induction cs) auto

lemma perform_first_raise:
  "k < length cs \<Longrightarrow> \<forall>j<k. raises w (cs ! j) = None \<Longrightarrow> raises w (cs ! k) = Some x
   \<Longrightarrow> perform w cs = (take k cs, Some x)"
proof (induction cs arbitrary: k)
  case Nil
  then show ?case by simp
next
  case (Cons c cs)
  show ?case
  proof (cases k)
    case 0
    with Cons.prems show ?thesis by simp
  next
    case (Suc k')
    have c: "raises w c = None" using Cons.prems(2) Suc by auto
    have "\<forall>j<k'. raises w (cs ! j) = None"
    proof (intro allI impI)
      fix j assume "j < k'"
      then have "Suc j < k" using Suc by simp
      with Cons.prems(2) have "raises w ((c # cs) ! Suc j) = None" by blast
      then show "raises w (cs ! j) = None" by simp
    qed
    with Cons.prems Suc have "perform w cs = (take k' cs, Some x)"
      by (intro Cons.IH) auto
    then show ?thesis by (simp add: Suc c)
  qed
qed

lemma perform_prefix: "\<exists>n\<le>length cs. fst (perform w cs) = take n cs"
proof (induction cs)
  case Nil
  then show ?case by simp
next
  case (Cons c cs)
  then obtain n where n: "n \<le> length cs" "fst (perform w cs) = take n cs" by blast
  show ?case
  proof (cases "raises w c")
    case None
    then have "fst (perform w (c # cs)) = take (Suc n) (c # cs)"
      using n by (cases "perform w cs") simp
    then show ?thesis using n(1) by (intro exI[of _ "Suc n"]) simp
  next
    case (Some x)
    then have "fst (perform w (c # cs)) = take 0 (c # cs)" by simp
    then show ?thesis by (intro exI[of _ 0]) simp
  qed
qed

lemma perform_None: "perform w cs = (made, None) \<Longrightarrow> made = cs"
  by (induction cs arbitrary: made) (auto split: option.splits prod.splits)

lemma perform_dialog:
  "fst (perform w [c]) = [] \<or> fst (perform w [c]) = [c]"
  by (simp split: option.splits)

lemma main_trace_shape:
  "\<exists>n E. fst (main b w) = take n (before_try b w @ fst (try_block b w)) @ E
         \<and> (E = [] \<or> (\<exists>t. E = [DisplayExceptionErrorDialog t]))"
proof (cases "perform w (before_try b w)")
  case (Pair made thrown)
  show ?thesis
  proof (cases thrown)
    case (Some x)
    obtain n where n: "n \<le> length (before_try b w)" "fst (perform w (before_try b w)) = take n (before_try b w)"
      using perform_prefix by blast
    have "fst (main b w) = take n (before_try b w @ fst (try_block b w)) @ []"
      using Pair Some n by (simp add: main_def)
    then show ?thesis by blast
  next
    case None
    then have made: "made = before_try b w" using Pair perform_None by blast
    obtain n where n: "n \<le> length (fst (try_block b w))"
        "fst (perform w (fst (try_block b w))) = take n (fst (try_block b w))"
      using perform_prefix by blast
    obtain made' thrown' where P: "perform w (fst (try_block b w)) = (made', thrown')"
      by (cases "perform w (fst (try_block b w))")
    have made': "made' = take n (fst (try_block b w))" using n P by simp
    have pre: "before_try b w @ made' = take (length (before_try b w) + n) (before_try b w @ fst (try_block b w))"
      by (simp add: made')
    show ?thesis
    proof (cases thrown')
      case None
      have "fst (main b w) = take (length (before_try b w) + n) (before_try b w @ fst (try_block b w)) @ []"
        using Pair \<open>thrown = None\<close> made P None pre by (simp add: main_def)
      then show ?thesis by blast
    next
      case (Some x)
      show ?thesis
      proof (cases x)
        case OtherException
        have "fst (main b w) = take (length (before_try b w) + n) (before_try b w @ fst (try_block b w)) @ []"
          using Pair \<open>thrown = None\<close> made P Some OtherException pre by (simp add: main_def)
        then show ?thesis by blast
      next
        case StdException
        let ?d = "DisplayExceptionErrorDialog (QString_lit (std_exception_what b))"
        have "fst (main b w) = take (length (before_try b w) + n) (before_try b w @ fst (try_block b w)) @ fst (perform w [?d])"
          using Pair \<open>thrown = None\<close> made P Some StdException pre
          by (simp add: main_def split: option.splits prod.splits)
        moreover have "fst (perform w [?d]) = [] \<or> fst (perform w [?d]) = [?d]"
          by (rule perform_dialog)
        ultimately show ?thesis by metis
      qed
    qed
  qed
qed

lemma occurs_after:
  assumes "x \<notin> set A" and "x \<noteq> v" and "x \<notin> set E"
    and eq: "take n (A @ v # B) @ E = pre @ x # post"
  shows "v \<in> set pre"
proof -
  define L where "L = A @ v # B"
  define T where "T = take n L"
  define i where "i = length pre"
  have T_nth: "\<And>j. j < length T \<Longrightarrow> T ! j = L ! j"
    by (simp add: T_def)
  have T_take: "\<And>j. j \<le> length T \<Longrightarrow> take j T = take j L"
    by (auto simp: T_def min_def split: if_splits)
  have eq': "T @ E = pre @ x # post" using eq by (simp only: T_def L_def)
  have xi: "(T @ E) ! i = x" unfolding eq' i_def by simp
  have len: "i < length T + length E"
  proof -
    have "length (T @ E) = length (pre @ x # post)" by (simp only: eq')
    then show ?thesis by (simp add: i_def)
  qed
  have iT: "i < length T"
  proof (rule ccontr)
    assume not: "\<not> i < length T"
    then have "(T @ E) ! i = E ! (i - length T)" by (simp add: nth_append)
    moreover have "i - length T < length E" using len not by arith
    ultimately have "x \<in> set E" using xi by (metis nth_mem)
    with assms(3) show False by simp
  qed
  have "T ! i = x" using xi iT by (simp add: nth_append)
  then have "L ! i = x" using T_nth[OF iT] by simp
  then have at_i: "(A @ v # B) ! i = x" by (simp only: L_def)
  have "\<not> i < length A"
  proof
    assume "i < length A"
    then have "A ! i = x" using at_i by (simp add: nth_append)
    then have "x \<in> set A" using \<open>i < length A\<close> by (metis nth_mem)
    with assms(1) show False by simp
  qed
  moreover have "i \<noteq> length A" using at_i assms(2) by (auto simp: nth_append)
  ultimately have gt: "length A < i" by simp
  have "pre = take i (T @ E)" unfolding eq' i_def by simp
  also have "\<dots> = take i T" using iT by simp
  also have "\<dots> = take i L" using iT by (intro T_take) simp
  finally have pre: "pre = take i (A @ v # B)" by (simp only: L_def)
  have "pre ! length A = v" using gt by (simp add: pre nth_append)
  moreover have "length A < length pre" using gt by (simp add: i_def)
  ultimately show ?thesis by (metis nth_mem)
qed

lemma stdout_lines_Nil: "stdout_lines [] = []"
  by (simp add: stdout_lines_def)
lemma stdout_lines_Cons:
  "stdout_lines (e # es) = (case e of cout_line t \<Rightarrow> [t] | _ \<Rightarrow> []) @ stdout_lines es"
  by (simp add: stdout_lines_def split: effect.splits)
lemma stdout_lines_append: "stdout_lines (xs @ ys) = stdout_lines xs @ stdout_lines ys"
  by (simp add: stdout_lines_def map_filter_def)

lemma main_windows_Nil: "main_windows [] = []"
  by (simp add: main_windows_def)
lemma main_windows_Cons:
  "main_windows (e # es) = (case e of MainWindow_ctor p \<Rightarrow> [p] | _ \<Rightarrow> []) @ main_windows es"
  by (simp add: main_windows_def split: effect.splits)
lemma main_windows_append: "main_windows (xs @ ys) = main_windows xs @ main_windows ys"
  by (simp add: main_windows_def map_filter_def)

lemmas startup_shown_simps =
  stdout_lines_Nil stdout_lines_Cons stdout_lines_append
  main_windows_Nil main_windows_Cons main_windows_append
  dialogs_Nil dialogs_Cons dialogs_append

lemma loads_shown:
  "stdout_lines (map (QTranslator_load t n) xs) = []"
  "main_windows (map (QTranslator_load t n) xs) = []"
  "dialogs (map (QTranslator_load t n) xs) = []"
  by (induction xs) (simp_all add: startup_shown_simps)

lemma before_try_shown:
  "stdout_lines (before_try b w) = []" "main_windows (before_try b w) = []"
  "dialogs (before_try b w) = []"
  by (simp_all add: before_try_def startup_shown_simps)

lemma install_translations_shown:
  "stdout_lines (install_translations w) = []" "main_windows (install_translations w) = []"
  "dialogs (install_translations w) = []"
  by (simp_all add: install_translations_def Let_def startup_shown_simps loads_shown)

lemma try_prefix_shown:
  "stdout_lines (try_prefix b w) = []" "main_windows (try_prefix b w) = []"
  "dialogs (try_prefix b w) = []"
  by (simp_all add: try_prefix_def Let_def startup_shown_simps install_translations_shown)

lemma before_try_early:
  "load_plugins_from_disk \<notin> set (before_try b w)" "MainWindow_ctor p \<notin> set (before_try b w)"
  "MainWindow_show \<notin> set (before_try b w)" "basemw_show \<notin> set (before_try b w)"
  "app_exec \<notin> set (before_try b w)"
  by (simp_all add: before_try_def)

lemma install_translations_early:
  "load_plugins_from_disk \<notin> set (install_translations w)"
  "MainWindow_ctor p \<notin> set (install_translations w)"
  "MainWindow_show \<notin> set (install_translations w)" "basemw_show \<notin> set (install_translations w)"
  "app_exec \<notin> set (install_translations w)"
  by (auto simp: install_translations_def Let_def)

lemma try_prefix_early:
  "load_plugins_from_disk \<notin> set (try_prefix b w)" "MainWindow_ctor p \<notin> set (try_prefix b w)"
  "MainWindow_show \<notin> set (try_prefix b w)" "basemw_show \<notin> set (try_prefix b w)"
  "app_exec \<notin> set (try_prefix b w)"
  by (simp_all add: try_prefix_def Let_def install_translations_early)

lemma try_rest_scratchpad:
  "QString_lit ''-t'' \<in> set (startup_arguments b w)
   \<Longrightarrow> try_rest b w = ([GetPathToSigilScratchpad, cout_line (scratchpad w)], 1)"
  by (simp add: try_rest_def Let_def)

lemma try_rest_window:
  "QString_lit ''-t'' \<notin> set (startup_arguments b w)
   \<Longrightarrow> try_rest b w =
         ((if os b = MacOS then [mac_menubar_setup, basemw_show] else [])
           @ load_plugins_from_disk # GetMainWindow w (startup_arguments b w)
           @ [MainWindow_show, app_exec],
          exec_result w)"
  by (simp add: try_rest_def Let_def VerifyPlugins_def)

lemma startup_arguments_superset:
  "a \<in> set (process_arguments w) \<Longrightarrow> a \<in> set (startup_arguments b w)"
  by (simp add: startup_arguments_def Let_def)

lemma main_no_raise:
  "\<forall>c. raises w c = None
   \<Longrightarrow> main b w = (before_try b w @ fst (try_block b w), Exit (snd (try_block b w)))"
  by (simp add: main_def perform_all)

lemma main_trace_member:
  assumes "c \<in> set (fst (main b w))"
  shows "c \<in> set (before_try b w) \<or> c \<in> set (fst (try_block b w))
         \<or> (\<exists>t. c = DisplayExceptionErrorDialog t)"
proof -
  obtain n E where shape: "fst (main b w) = take n (before_try b w @ fst (try_block b w)) @ E"
      and E: "E = [] \<or> (\<exists>t. E = [DisplayExceptionErrorDialog t])"
    using main_trace_shape by blast
  from assms shape have "c \<in> set (take n (before_try b w @ fst (try_block b w))) \<or> c \<in> set E"
    by simp
  then show ?thesis
  proof
    assume "c \<in> set (take n (before_try b w @ fst (try_block b w)))"
    then have "c \<in> set (before_try b w @ fst (try_block b w))" by (rule in_set_takeD)
    then show ?thesis by auto
  next
    assume "c \<in> set E"
    with E show ?thesis by auto
  qed
qed

lemma scratchpad_mode_calls:
  assumes "QString_lit ''-t'' \<in> set (startup_arguments b w)"
    and "c \<in> set (fst (main b w))"
  shows "c \<noteq> load_plugins_from_disk \<and> (\<forall>p. c \<noteq> MainWindow_ctor p) \<and> c \<noteq> MainWindow_show
         \<and> c \<noteq> basemw_show \<and> c \<noteq> app_exec"
proof -
  have body: "fst (try_block b w) = try_prefix b w @ [GetPathToSigilScratchpad, cout_line (scratchpad w)]"
    by (simp add: try_block_def try_rest_scratchpad[OF assms(1)])
  from main_trace_member[OF assms(2)] show ?thesis
    by (auto simp: body before_try_early try_prefix_early)
qed

lemma scratchpad_world_facts:
  "QString_lit ''-t'' \<in> set (process_arguments scratchpad_world)"
  "\<forall>c. raises scratchpad_world c = None"
  "scratchpad scratchpad_world = QString_lit ''/tmp/scratch''"
  by (simp_all add: scratchpad_world_def quiet_world_def)

lemma loops_ignore_raises:
  "qtbaseTranslator_loop (w\<lparr>raises := r\<rparr>) n ps = qtbaseTranslator_loop w n ps"
  "sigilTranslator_loop (w\<lparr>raises := r\<rparr>) n ps = sigilTranslator_loop w n ps"
  by (induction ps) simp_all

lemma GetMainWindow_ignores_raises:
  "GetMainWindow (w\<lparr>raises := r\<rparr>) args = GetMainWindow w args"
  by (simp add: GetMainWindow_def GetMainWindow_filepath_def)

lemma plan_ignores_raises:
  "startup_arguments b (w\<lparr>raises := r\<rparr>) = startup_arguments b w"
  "before_try b (w\<lparr>raises := r\<rparr>) = before_try b w"
  "try_prefix b (w\<lparr>raises := r\<rparr>) = try_prefix b w"
  "try_block b (w\<lparr>raises := r\<rparr>) = try_block b w"
  by (simp_all add: startup_arguments_def before_try_def try_prefix_def try_block_def
        try_rest_def install_translations_def loops_ignore_raises GetMainWindow_ignores_raises
        Let_def)

lemma GetMainWindow_shown:
  "main_windows (GetMainWindow w arguments) = [GetMainWindow_filepath w arguments]"
  "dialogs (GetMainWindow w arguments) = []"
  by (simp_all add: GetMainWindow_def startup_shown_simps)

lemma GetMainWindow_early:
  "load_plugins_from_disk \<notin> set (GetMainWindow w arguments)"
  "MainWindow_show \<notin> set (GetMainWindow w arguments)"
  by (simp_all add: GetMainWindow_def)

lemma try_block_linux_quiet:
  "fst (try_block linux_build quiet_world) =
     try_prefix linux_build quiet_world
       @ [load_plugins_from_disk, MainWindow_ctor [], MainWindow_show, app_exec]"
  "length (try_prefix linux_build quiet_world) = 16"
  "load_plugins_from_disk \<notin> set (try_prefix linux_build quiet_world)"
  "EmbeddedPython_instance \<notin> set (try_prefix linux_build quiet_world)"
  by (simp_all add: quiet_world_def linux_build_def try_block_def try_prefix_def try_rest_def
        install_translations_def startup_arguments_def VerifyPlugins_def GetMainWindow_def
        GetMainWindow_filepath_def Let_def QString_lit_def)

lemma before_try_linux_quiet:
  "before_try linux_build quiet_world =
     [QT_REQUIRE_VERSION, qInstallMessageHandler, setOrganizationName, setOrganizationDomain,
      setApplicationName, setApplicationVersion, setAttribute_DisableShaderDiskCache,
      MainApplication_ctor, setStartDragDistance, EmbeddedPython_instance,
      addToPythonSysPath_embeddedRoot, addToPythonSysPath_launcherRoot]"
  by (simp add: quiet_world_def linux_build_def before_try_def)

lemma plugins_fail_world_same:
  "before_try b (plugins_fail_world x) = before_try b quiet_world"
  "try_block b (plugins_fail_world x) = try_block b quiet_world"
  "try_prefix b (plugins_fail_world x) = try_prefix b quiet_world"
  "raises (plugins_fail_world x) c = (if c = load_plugins_from_disk then Some x else None)"
  by (simp_all add: plugins_fail_world_def plan_ignores_raises)

lemma python_fails_world_same:
  "before_try b python_fails_world = before_try b quiet_world"
  "raises python_fails_world c = (if c = EmbeddedPython_instance then Some StdException else None)"
  by (simp_all add: python_fails_world_def plan_ignores_raises)

lemma linux_build_what: "std_exception_what linux_build = ''std::exception''"
  by (simp add: linux_build_def)

lemma linux_build_os: "os linux_build = OtherUnix"
  by (simp add: linux_build_def)

lemma book_world_facts:
  "startup_arguments linux_build book_world = [QString_lit ''sigil'', QString_lit ''/b.epub'']"
  "\<forall>c. raises book_world c = None"
  "file_readable book_world (QString_lit ''/b.epub'')"
  by (simp_all add: book_world_def quiet_world_def startup_arguments_def linux_build_def Let_def)

lemma quiet_world_facts:
  "startup_arguments linux_build quiet_world = [QString_lit ''sigil'']"
  "\<forall>c. raises quiet_world c = None"
  by (simp_all add: quiet_world_def startup_arguments_def linux_build_def Let_def)

lemma not_minus_t:
  "QString_lit ''-t'' \<noteq> QString_lit ''sigil''" "QString_lit ''-t'' \<noteq> QString_lit ''/b.epub''"
  by (simp_all add: QString_lit_def)

lemma file_open_world_facts:
  "startup_arguments mac_build file_open_world = [QString_lit ''sigil'', QString_lit ''/b.epub'']"
  "\<forall>c. raises file_open_world c = None"
  "file_readable file_open_world (QString_lit ''/b.epub'')"
  "process_arguments file_open_world = [QString_lit ''sigil'']"
  by (simp_all add: file_open_world_def quiet_world_def startup_arguments_def mac_build_def Let_def
        QString_lit_def)

lemma window_after_plugins:
  assumes "x = MainWindow_show \<or> (\<exists>p. x = MainWindow_ctor p)"
    and "fst (main b w) = pre @ x # post"
  shows "load_plugins_from_disk \<in> set pre"
proof -
  obtain n E where shape: "fst (main b w) = take n (before_try b w @ fst (try_block b w)) @ E"
      and E: "E = [] \<or> (\<exists>t. E = [DisplayExceptionErrorDialog t])"
    using main_trace_shape by blast
  have xE: "x \<notin> set E" using E assms(1) by auto
  have xv: "x \<noteq> load_plugins_from_disk" using assms(1) by auto
  show ?thesis
  proof (cases "QString_lit ''-t'' \<in> set (startup_arguments b w)")
    case True
    have "x \<in> set (fst (main b w))" using assms(2) by simp
    with scratchpad_mode_calls[OF True] assms(1) show ?thesis by blast
  next
    case False
    let ?A = "before_try b w @ try_prefix b w
               @ (if os b = MacOS then [mac_menubar_setup, basemw_show] else [])"
    let ?B = "GetMainWindow w (startup_arguments b w) @ [MainWindow_show, app_exec]"
    have plan: "before_try b w @ fst (try_block b w) = ?A @ load_plugins_from_disk # ?B"
      by (simp add: try_block_def try_rest_window[OF False])
    have xA: "x \<notin> set ?A"
      using assms(1) by (auto simp: before_try_early try_prefix_early)
    have "take n (?A @ load_plugins_from_disk # ?B) @ E = pre @ x # post"
      using shape assms(2) plan by simp
    from occurs_after[OF xA xv xE this] show ?thesis .
  qed
qed

lemma dialogs_take: "dialogs cs = [] \<Longrightarrow> dialogs (take k cs) = []"
  by (auto simp: dialogs_def map_filter_def filter_empty_conv dest: in_set_takeD)

lemma try_block_dialogs: "dialogs (fst (try_block b w)) = []"
  by (simp add: try_block_def try_rest_def Let_def VerifyPlugins_def startup_shown_simps
        try_prefix_shown GetMainWindow_shown)

section \<open>Properties of the message handler\<close>

text \<open>
  Claim C1, as the code has it. The recovery path is compiled for Windows only. There,
  for a Critical event whose message starts with the clipboard error text, with the
  focus in a widget of a supported kind that gives the retry a receiver (the widget
  itself, or, for a combo box, its embedded line edit), the handler schedules exactly one
  deferred retry: one single-shot timer of 5 ms that calls the slot \<^verbatim>\<open>copy()\<close> of
  that receiver, and it shows no dialog. When the handler's Latin-1 copy of the message
  does not start with that text, or there is no focus widget, or the focus widget is of
  no supported kind, and in every build for another platform, it schedules no retry and
  shows one dialog, \<^verbatim>\<open>Critical: \<close> and the Latin-1 copy of the message. That copy is
  the message itself when the message is made of ASCII characters. Nothing is said here
  of a combo box that has no embedded line edit.
\<close>

theorem C1_recovery:
  "(os b = Win32 \<and> startsWith message WIN_CLIPBOARD_ERROR \<and> focusWidget w = Some wd
      \<and> supported_kind wd \<and> retry_receiver wd = Some r
    \<longrightarrow> retries (fst (MessageHandler b w QtCriticalMsg message)) = [(5, Some r, ''copy()'')]
        \<and> slot_invocations (fst (MessageHandler b w QtCriticalMsg message)) = [(r, ''copy()'')]
        \<and> dialogs (fst (MessageHandler b w QtCriticalMsg message)) = []
        \<and> ((\<forall>le. cls wd \<noteq> QComboBox le) \<longrightarrow> r = addr wd))
   \<and> (os b \<noteq> Win32 \<or> \<not> startsWith (latin1_text message) WIN_CLIPBOARD_ERROR
       \<or> focusWidget w = None \<or> (\<exists>wd'. focusWidget w = Some wd' \<and> \<not> supported_kind wd')
    \<longrightarrow> retries (fst (MessageHandler b w QtCriticalMsg message)) = []
        \<and> dialogs (fst (MessageHandler b w QtCriticalMsg message))
          = [QString_lit ''Critical: '' @ latin1_text message])
   \<and> ((\<forall>c\<in>set message. c \<noteq> 0 \<and> c < 0x80) \<longrightarrow> latin1_text message = message)"
proof -
  let ?fx = "fst (MessageHandler b w QtCriticalMsg message)"
  have ascii: "(\<forall>c\<in>set message. c \<noteq> 0 \<and> c < 0x80) \<longrightarrow> latin1_text message = message"
    using latin1_text_ascii by blast
  have retry: "os b = Win32 \<and> startsWith message WIN_CLIPBOARD_ERROR \<and> focusWidget w = Some wd
      \<and> supported_kind wd \<and> retry_receiver wd = Some r
    \<longrightarrow> retries ?fx = [(5, Some r, ''copy()'')] \<and> slot_invocations ?fx = [(r, ''copy()'')]
        \<and> dialogs ?fx = []"
    by (auto simp: MessageHandler_def shown_simps log_block_silent critical_case_cases
          RETRY_DELAY_MS_def startsWith_latin1_text slot_invocations_timer
          slot_invocations_log_block split: option.splits)
  have itself: "retry_receiver wd = Some r \<longrightarrow> (\<forall>le. cls wd \<noteq> QComboBox le) \<longrightarrow> r = addr wd"
    by (auto simp: retry_receiver_def split: widget_class.splits)
  have dialog: "os b \<noteq> Win32 \<or> \<not> startsWith (latin1_text message) WIN_CLIPBOARD_ERROR
       \<or> focusWidget w = None \<or> (\<exists>wd'. focusWidget w = Some wd' \<and> \<not> supported_kind wd')
    \<longrightarrow> retries ?fx = [] \<and> dialogs ?fx = [QString_lit ''Critical: '' @ latin1_text message]"
    by (auto simp: MessageHandler_def shown_simps log_block_silent critical_case_cases
          split: option.splits)
  from retry itself dialog ascii show ?thesis by blast
qed

text \<open>On Windows with the focus in a code view, and with no focus widget.\<close>

theorem C1_witness:
  "retries (fst (MessageHandler windows_build editing_world QtCriticalMsg
             (WIN_CLIPBOARD_ERROR @ QString_lit '' (retry)'')))
     = [(5, Some 7, ''copy()'')]
   \<and> slot_invocations (fst (MessageHandler windows_build editing_world QtCriticalMsg
             (WIN_CLIPBOARD_ERROR @ QString_lit '' (retry)''))) = [(7, ''copy()'')]
   \<and> dialogs (fst (MessageHandler windows_build editing_world QtCriticalMsg
             (WIN_CLIPBOARD_ERROR @ QString_lit '' (retry)''))) = []
   \<and> retries (fst (MessageHandler windows_build quiet_world QtCriticalMsg
             (WIN_CLIPBOARD_ERROR @ QString_lit '' (retry)''))) = []
   \<and> dialogs (fst (MessageHandler windows_build quiet_world QtCriticalMsg
             (WIN_CLIPBOARD_ERROR @ QString_lit '' (retry)'')))
     = [QString_lit ''Critical: '' @ WIN_CLIPBOARD_ERROR @ QString_lit '' (retry)'']"
proof -
  let ?m = "WIN_CLIPBOARD_ERROR @ QString_lit '' (retry)''"
  let ?wd = "\<lparr>addr = 7, cls = QPlainTextEdit\<rparr>"
  have h1: "os windows_build = Win32 \<and> startsWith ?m WIN_CLIPBOARD_ERROR
      \<and> focusWidget editing_world = Some ?wd \<and> supported_kind ?wd
      \<and> retry_receiver ?wd = Some 7"
    by (simp add: windows_build_def startsWith_def editing_world_focus supported_kind_def
          retry_receiver_def)
  have h2: "os windows_build \<noteq> Win32 \<or> \<not> startsWith (latin1_text ?m) WIN_CLIPBOARD_ERROR
      \<or> focusWidget quiet_world = None
      \<or> (\<exists>wd'. focusWidget quiet_world = Some wd' \<and> \<not> supported_kind wd')"
    by (simp add: quiet_world_def)
  have h3: "\<forall>c\<in>set ?m. c \<noteq> 0 \<and> c < 0x80"
    by (simp add: WIN_CLIPBOARD_ERROR_def QString_lit_def)
  from C1_recovery [of windows_build ?m editing_world ?wd 7] h1
  have c1: "retries (fst (MessageHandler windows_build editing_world QtCriticalMsg ?m))
        = [(5, Some 7, ''copy()'')]
      \<and> slot_invocations (fst (MessageHandler windows_build editing_world QtCriticalMsg ?m))
        = [(7, ''copy()'')]
      \<and> dialogs (fst (MessageHandler windows_build editing_world QtCriticalMsg ?m)) = []"
    by blast
  from C1_recovery [of windows_build ?m quiet_world ?wd 7] h2 h3
  have c2: "retries (fst (MessageHandler windows_build quiet_world QtCriticalMsg ?m)) = []
      \<and> dialogs (fst (MessageHandler windows_build quiet_world QtCriticalMsg ?m))
        = [QString_lit ''Critical: '' @ latin1_text ?m]"
    and c3: "latin1_text ?m = ?m"
    by blast+
  show ?thesis using c1 c2 c3 by simp
qed

text \<open>
  The claim as stated fails where the recovery path is not compiled: in a build for
  another platform the same event, with the focus in a code view, arms no timer and
  shows the dialog.
\<close>

theorem C1_counterexample:
  "startsWith (WIN_CLIPBOARD_ERROR @ QString_lit '' (retry)'') WIN_CLIPBOARD_ERROR
   \<and> focusWidget editing_world = Some \<lparr>addr = 7, cls = QPlainTextEdit\<rparr>
   \<and> retries (fst (MessageHandler linux_build editing_world QtCriticalMsg
               (WIN_CLIPBOARD_ERROR @ QString_lit '' (retry)''))) = []
   \<and> length (dialogs (fst (MessageHandler linux_build editing_world QtCriticalMsg
               (WIN_CLIPBOARD_ERROR @ QString_lit '' (retry)'')))) = 1"
  by (simp add: MessageHandler_def shown_simps log_block_silent critical_case_cases
        linux_build_def editing_world_focus startsWith_def)

text \<open>
  Claim C4, as the code has it. The handler writes a Debug, an Info (from Qt 5.6 on) or a
  Warning event to standard error exactly once: its label, the Latin-1 bytes of the
  message up to the first NUL, and a newline. It writes nothing to standard error for a
  Critical or a Fatal event, which go to a dialog.
\<close>

theorem C4_stderr:
  "stderr_writes (fst (MessageHandler b w type message)) =
     (case type of
        QtDebugMsg \<Rightarrow> [cstr ''Debug: '' @ constData (toLatin1 message) @ [0x0A]]
      | QtInfoMsg \<Rightarrow>
          if 0x050600 \<le> QT_VERSION b
          then [cstr ''Info: '' @ constData (toLatin1 message) @ [0x0A]] else []
      | QtWarningMsg \<Rightarrow> [cstr ''Warning: '' @ constData (toLatin1 message) @ [0x0A]]
      | QtCriticalMsg \<Rightarrow> []
      | QtFatalMsg \<Rightarrow> [])"
  by (cases type)
     (simp_all add: MessageHandler_def shown_simps log_block_silent critical_case_stderr)

text \<open>A Warning event reaches standard error once.\<close>

theorem C4_witness:
  "stderr_writes (fst (MessageHandler linux_build quiet_world QtWarningMsg (QString_lit ''low disk'')))
     = [cstr ''Warning: low disk'' @ [0x0A]]"
  using C4_stderr [of linux_build quiet_world QtWarningMsg "QString_lit ''low disk''"]
  by (simp add: QString_lit_def cstr_def toLatin1_def constData_def)

text \<open>
  The claim as stated fails for a Critical event: the handler shows the dialog and
  writes nothing to standard error.
\<close>

theorem C4_counterexample:
  "stderr_writes (fst (MessageHandler linux_build quiet_world QtCriticalMsg (QString_lit ''disk'')))
     = []
   \<and> dialogs (fst (MessageHandler linux_build quiet_world QtCriticalMsg (QString_lit ''disk'')))
     = [QString_lit ''Critical: disk'']"
  by (simp add: MessageHandler_def shown_simps log_block_silent critical_case_cases
       linux_build_def latin1_text_ascii QString_lit_def)

text \<open>
  Claim C8, as the code has it. The log file block is compiled for Windows only. There,
  a Debug event appends one line, \<^verbatim>\<open>Debug: \<close> and the Latin-1 copy of the message,
  exactly when the variable is set, its value is not empty and the file it names opens
  for appending. The handler makes no other call for a Debug event than the line on
  standard error and this one, and it returns: a log file that cannot be opened changes
  nothing else. A Fatal event never writes to the log file, and in a build for another
  platform no event does.
\<close>

theorem C8_debug_log:
  "log_writes (fst (MessageHandler b w QtDebugMsg message)) =
     (case (if os b = Win32 then log_target w else None) of
        Some f \<Rightarrow> [(f, QString_lit ''Debug: '' @ latin1_text message @ [0x0A])]
      | None \<Rightarrow> [])
   \<and> fst (MessageHandler b w QtDebugMsg message) =
       fprintf_stderr (cstr ''Debug: '' @ constData (toLatin1 message) @ [0x0A])
         # map (\<lambda>(f, t). QTextStream_append f t)
             (log_writes (fst (MessageHandler b w QtDebugMsg message)))
   \<and> snd (MessageHandler b w QtDebugMsg message) = Returned
   \<and> log_writes (fst (MessageHandler b w QtFatalMsg message)) = []
   \<and> (os b \<noteq> Win32 \<longrightarrow> log_writes (fst (MessageHandler b w type message)) = [])"
  by (simp add: MessageHandler_Debug shown_simps log_writes_log_block log_block_cases
        log_writes_not_Win32 split: option.splits)
     (simp add: MessageHandler_def shown_simps)

text \<open>On Windows with and without a log file, and on macOS.\<close>

theorem C8_witness:
  "log_writes (fst (MessageHandler windows_build logging_world QtDebugMsg (QString_lit ''hello'')))
     = [(QString_lit ''C:/sigil.log'', QString_lit ''Debug: hello'' @ [0x0A])]
   \<and> log_writes (fst (MessageHandler windows_build quiet_world QtDebugMsg (QString_lit ''hello'')))
     = []
   \<and> log_writes (fst (MessageHandler mac_build logging_world QtWarningMsg (QString_lit ''hello'')))
     = []"
proof -
  let ?m = "QString_lit ''hello''"
  from C8_debug_log [of windows_build logging_world ?m]
  have c1: "log_writes (fst (MessageHandler windows_build logging_world QtDebugMsg ?m)) =
      (case (if os windows_build = Win32 then log_target logging_world else None) of
         Some f \<Rightarrow> [(f, QString_lit ''Debug: '' @ latin1_text ?m @ [0x0A])]
       | None \<Rightarrow> [])"
    by blast
  from C8_debug_log [of windows_build quiet_world ?m]
  have c2: "log_writes (fst (MessageHandler windows_build quiet_world QtDebugMsg ?m)) =
      (case (if os windows_build = Win32 then log_target quiet_world else None) of
         Some f \<Rightarrow> [(f, QString_lit ''Debug: '' @ latin1_text ?m @ [0x0A])]
       | None \<Rightarrow> [])"
    by blast
  have h3: "os mac_build \<noteq> Win32" by (simp add: mac_build_def)
  from C8_debug_log [of mac_build logging_world ?m QtWarningMsg] h3
  have c3: "log_writes (fst (MessageHandler mac_build logging_world QtWarningMsg ?m)) = []"
    by blast
  show ?thesis using c1 c2 c3
    by (simp add: log_target_logging_world log_target_quiet_world windows_build_os
          latin1_text_ascii QString_lit_def)
qed

text \<open>
  The claim as stated fails where the block is not compiled: a Debug event, with the
  variable naming a file that can be written, appends nothing.
\<close>

theorem C8_counterexample:
  "log_target logging_world = Some (QString_lit ''C:/sigil.log'')
   \<and> log_writes (fst (MessageHandler linux_build logging_world QtDebugMsg (QString_lit ''hello'')))
     = []"
  by (simp add: log_target_logging_world log_writes_not_Win32 linux_build_def)

text \<open>
  On Windows the block runs after the switch for every event that does not abort, with
  \<^verbatim>\<open>win_debug_message\<close> empty unless the event is a Debug event: a Warning event
  appends an empty line.
\<close>

lemma Warning_appends_empty_line:
  "log_writes (fst (MessageHandler windows_build logging_world QtWarningMsg (QString_lit ''low disk'')))
     = [(QString_lit ''C:/sigil.log'', [0x0A])]"
  by (simp add: MessageHandler_def shown_simps log_writes_log_block log_target_logging_world
        windows_build_def)

text \<open>
  Claim C10. When the recovery path matches and the focus is in a combo box, the timer
  is addressed to what the combo box's \<^verbatim>\<open>lineEdit()\<close> returns and not to the combo
  box; no dialog is shown. For a combo box that is not editable that is the null
  pointer, and no \<^verbatim>\<open>copy()\<close> is called.
\<close>

theorem C10_combo_box:
  "os b = Win32 \<and> startsWith message WIN_CLIPBOARD_ERROR \<and> focusWidget w = Some wd
     \<and> cls wd = QComboBox le
   \<longrightarrow> retries (fst (MessageHandler b w QtCriticalMsg message)) = [(5, le, ''copy()'')]
       \<and> dialogs (fst (MessageHandler b w QtCriticalMsg message)) = []
       \<and> slot_invocations (fst (MessageHandler b w QtCriticalMsg message))
           = (case le of None \<Rightarrow> [] | Some lineEdit \<Rightarrow> [(lineEdit, ''copy()'')])"
  by (auto simp: MessageHandler_def shown_simps log_block_silent critical_case_cases
        RETRY_DELAY_MS_def startsWith_latin1_text supported_kind_def retry_receiver_def
        slot_invocations_timer slot_invocations_log_block
      split: option.splits)

text \<open>An editable combo box at address 11 with its line edit at 12, and one not editable.\<close>

theorem C10_witness:
  "retries (fst (MessageHandler windows_build (combo_world (Some 12)) QtCriticalMsg
             WIN_CLIPBOARD_ERROR)) = [(5, Some 12, ''copy()'')]
   \<and> retries (fst (MessageHandler windows_build (combo_world None) QtCriticalMsg
             WIN_CLIPBOARD_ERROR)) = [(5, None, ''copy()'')]
   \<and> dialogs (fst (MessageHandler windows_build (combo_world None) QtCriticalMsg
             WIN_CLIPBOARD_ERROR)) = []
   \<and> slot_invocations (fst (MessageHandler windows_build (combo_world None) QtCriticalMsg
             WIN_CLIPBOARD_ERROR)) = []"
proof -
  let ?ed = "\<lparr>addr = 11, cls = QComboBox (Some 12)\<rparr>"
  let ?ro = "\<lparr>addr = 11, cls = QComboBox None\<rparr>"
  have h1: "os windows_build = Win32 \<and> startsWith WIN_CLIPBOARD_ERROR WIN_CLIPBOARD_ERROR
      \<and> focusWidget (combo_world (Some 12)) = Some ?ed \<and> cls ?ed = QComboBox (Some 12)"
    by (simp add: windows_build_def startsWith_def combo_world_def)
  have h2: "os windows_build = Win32 \<and> startsWith WIN_CLIPBOARD_ERROR WIN_CLIPBOARD_ERROR
      \<and> focusWidget (combo_world None) = Some ?ro \<and> cls ?ro = QComboBox None"
    by (simp add: windows_build_def startsWith_def combo_world_def)
  from C10_combo_box [of windows_build WIN_CLIPBOARD_ERROR "combo_world (Some 12)" ?ed "Some 12"] h1
  have c1: "retries (fst (MessageHandler windows_build (combo_world (Some 12)) QtCriticalMsg
        WIN_CLIPBOARD_ERROR)) = [(5, Some 12, ''copy()'')]"
    by blast
  from C10_combo_box [of windows_build WIN_CLIPBOARD_ERROR "combo_world None" ?ro None] h2
  have c2: "retries (fst (MessageHandler windows_build (combo_world None) QtCriticalMsg
        WIN_CLIPBOARD_ERROR)) = [(5, None, ''copy()'')]
      \<and> dialogs (fst (MessageHandler windows_build (combo_world None) QtCriticalMsg
        WIN_CLIPBOARD_ERROR)) = []
      \<and> slot_invocations (fst (MessageHandler windows_build (combo_world None) QtCriticalMsg
        WIN_CLIPBOARD_ERROR))
        = (case None of None \<Rightarrow> [] | Some lineEdit \<Rightarrow> [(lineEdit, ''copy()'')])"
    by blast
  show ?thesis using c1 c2 by simp
qed

section \<open>Properties of the translation lookup\<close>

text \<open>
  Claim C2. When directory \<open>k\<close> of the candidate list is the first that exists and
  loads, the loop loads from it, and the loads it attempted are exactly the existing
  directories among the first \<open>k + 1\<close>, in list order: a directory that does not
  exist is passed over without a load, no directory after \<open>k\<close> is tried, and the list
  is neither reordered nor stripped of repetitions. When no candidate exists and loads,
  the loop tried every existing directory once, in order, and ends with nothing loaded;
  the result is a plain value, no error.
\<close>

theorem C2_first_loadable_directory:
  "(k < length paths \<and> loadable w name (paths ! k) \<and> (\<forall>j<k. \<not> loadable w name (paths ! j))
    \<longrightarrow> qtbaseTranslator_loop w name paths
          = (filter (dir_exists w) (take (Suc k) paths), Some (paths ! k)))
   \<and> ((\<forall>p\<in>set paths. \<not> loadable w name p)
    \<longrightarrow> qtbaseTranslator_loop w name paths = (filter (dir_exists w) paths, None))"
  using qtbaseTranslator_loop_first [of k paths w name] qtbaseTranslator_loop_none [of paths w name]
  by blast

text \<open>With the four directories of \<open>translations_world\<close>: a name found in the third, and
  a name found nowhere.\<close>

theorem C2_witness:
  "qtbaseTranslator_loop translations_world (QString_lit ''qtbase_en'')
     [QString_lit ''/a'', QString_lit ''/b'', QString_lit ''/c'', QString_lit ''/d'']
     = ([QString_lit ''/b'', QString_lit ''/c''], Some (QString_lit ''/c''))
   \<and> qtbaseTranslator_loop translations_world (QString_lit ''qtbase_fr'')
     [QString_lit ''/a'', QString_lit ''/b'', QString_lit ''/c'', QString_lit ''/d'']
     = ([QString_lit ''/b'', QString_lit ''/c'', QString_lit ''/d''], None)"
proof -
  let ?ps = "[QString_lit ''/a'', QString_lit ''/b'', QString_lit ''/c'', QString_lit ''/d'']"
  let ?en = "QString_lit ''qtbase_en''" and ?fr = "QString_lit ''qtbase_fr''"
  have h1: "Suc (Suc 0) < length ?ps \<and> loadable translations_world ?en (?ps ! Suc (Suc 0))
      \<and> (\<forall>j<Suc (Suc 0). \<not> loadable translations_world ?en (?ps ! j))"
    by (simp add: loadable_def translations_world_def QString_lit_def less_Suc_eq)
  have h2: "\<forall>p\<in>set ?ps. \<not> loadable translations_world ?fr p"
    by (simp add: loadable_def translations_world_def QString_lit_def)
  from C2_first_loadable_directory [of "Suc (Suc 0)" ?ps translations_world ?en] h1
  have c1: "qtbaseTranslator_loop translations_world ?en ?ps
      = (filter (dir_exists translations_world) (take (Suc (Suc (Suc 0))) ?ps),
         Some (?ps ! Suc (Suc 0)))"
    by blast
  from C2_first_loadable_directory [of 0 ?ps translations_world ?fr] h2
  have c2: "qtbaseTranslator_loop translations_world ?fr ?ps
      = (filter (dir_exists translations_world) ?ps, None)"
    by blast
  show ?thesis using c1 c2
    by (simp add: translations_world_def QString_lit_def)
qed

text \<open>
  Claim C9. The loop for \<^verbatim>\<open>qtbaseTranslator\<close> and the loop for
  \<^verbatim>\<open>sigilTranslator\<close> both compute the resolver of the specification, for every name
  pattern, candidate list and file system; given the same name they give the same
  result.
\<close>

theorem C9_one_resolver:
  "qtbaseTranslator_loop w name candidates = ResourceResolver w name candidates
   \<and> sigilTranslator_loop w name candidates = ResourceResolver w name candidates
   \<and> qtbaseTranslator_loop w name candidates = sigilTranslator_loop w name candidates"
  by (simp add: qtbaseTranslator_loop_resolver sigilTranslator_loop_resolver)

text \<open>The second loop and the resolver on the directories of \<open>translations_world\<close>.\<close>

theorem C9_witness:
  "sigilTranslator_loop translations_world (QString_lit ''qtbase_en'')
     [QString_lit ''/a'', QString_lit ''/b'', QString_lit ''/c'', QString_lit ''/d'']
     = ([QString_lit ''/b'', QString_lit ''/c''], Some (QString_lit ''/c''))
   \<and> ResourceResolver translations_world (QString_lit ''qtbase_en'')
     [QString_lit ''/a'', QString_lit ''/b'', QString_lit ''/c'', QString_lit ''/d'']
     = ([QString_lit ''/b'', QString_lit ''/c''], Some (QString_lit ''/c''))"
  using C9_one_resolver [of translations_world "QString_lit ''qtbase_en''"
          "[QString_lit ''/a'', QString_lit ''/b'', QString_lit ''/c'', QString_lit ''/d'']"]
  by (simp add: translations_world_def quiet_world_def QString_lit_def)

section \<open>Properties of start-up\<close>

text \<open>
  Claim C3, as the code has it. When the process arguments contain \<^verbatim>\<open>-t\<close>, no run
  of \<^verbatim>\<open>main\<close> scans the plugins, constructs or shows the main window, shows the
  macOS menu bar window or enters the event loop. When moreover no call throws,
  \<^verbatim>\<open>main\<close> makes the calls that stand before the test of the arguments (the message
  handler, the application object, the embedded Python paths, the translators, the style
  sheet, the update check, the event filter), then prints one line, the scratch
  directory's path, and returns 1.
\<close>

theorem C3_scratchpad_mode:
  "QString_lit ''-t'' \<in> set (process_arguments w)
   \<longrightarrow> load_plugins_from_disk \<notin> set (fst (main b w))
       \<and> (\<forall>p. MainWindow_ctor p \<notin> set (fst (main b w)))
       \<and> MainWindow_show \<notin> set (fst (main b w))
       \<and> basemw_show \<notin> set (fst (main b w))
       \<and> app_exec \<notin> set (fst (main b w))
       \<and> ((\<forall>c. raises w c = None)
          \<longrightarrow> main b w = (before_try b w @ try_prefix b w
                            @ [GetPathToSigilScratchpad, cout_line (scratchpad w)], Exit 1)
              \<and> stdout_lines (fst (main b w)) = [scratchpad w])"
proof
  assume "QString_lit ''-t'' \<in> set (process_arguments w)"
  then have t: "QString_lit ''-t'' \<in> set (startup_arguments b w)"
    by (rule startup_arguments_superset)
  have none: "\<And>c. c \<in> set (fst (main b w)) \<Longrightarrow>
      c \<noteq> load_plugins_from_disk \<and> (\<forall>p. c \<noteq> MainWindow_ctor p) \<and> c \<noteq> MainWindow_show
      \<and> c \<noteq> basemw_show \<and> c \<noteq> app_exec"
    using scratchpad_mode_calls[OF t] by blast
  have quiet: "(\<forall>c. raises w c = None)
      \<longrightarrow> main b w = (before_try b w @ try_prefix b w
                        @ [GetPathToSigilScratchpad, cout_line (scratchpad w)], Exit 1)
          \<and> stdout_lines (fst (main b w)) = [scratchpad w]"
    by (simp add: main_no_raise try_block_def try_rest_scratchpad[OF t] startup_shown_simps
          before_try_shown try_prefix_shown)
  show "load_plugins_from_disk \<notin> set (fst (main b w))
       \<and> (\<forall>p. MainWindow_ctor p \<notin> set (fst (main b w)))
       \<and> MainWindow_show \<notin> set (fst (main b w))
       \<and> basemw_show \<notin> set (fst (main b w))
       \<and> app_exec \<notin> set (fst (main b w))
       \<and> ((\<forall>c. raises w c = None)
          \<longrightarrow> main b w = (before_try b w @ try_prefix b w
                            @ [GetPathToSigilScratchpad, cout_line (scratchpad w)], Exit 1)
              \<and> stdout_lines (fst (main b w)) = [scratchpad w])"
    using none quiet by blast
qed

text \<open>The arguments \<^verbatim>\<open>sigil -t\<close>, nothing throwing.\<close>

theorem C3_witness:
  "stdout_lines (fst (main linux_build scratchpad_world)) = [QString_lit ''/tmp/scratch'']
   \<and> snd (main linux_build scratchpad_world) = Exit 1
   \<and> load_plugins_from_disk \<notin> set (fst (main linux_build scratchpad_world))
   \<and> MainWindow_show \<notin> set (fst (main linux_build scratchpad_world))"
proof -
  have h: "QString_lit ''-t'' \<in> set (process_arguments scratchpad_world)"
    and q: "\<forall>c. raises scratchpad_world c = None"
    by (simp_all add: scratchpad_world_facts)
  from C3_scratchpad_mode [of scratchpad_world linux_build] h q
  have "load_plugins_from_disk \<notin> set (fst (main linux_build scratchpad_world))
      \<and> MainWindow_show \<notin> set (fst (main linux_build scratchpad_world))
      \<and> main linux_build scratchpad_world =
          (before_try linux_build scratchpad_world @ try_prefix linux_build scratchpad_world
             @ [GetPathToSigilScratchpad, cout_line (scratchpad scratchpad_world)], Exit 1)
      \<and> stdout_lines (fst (main linux_build scratchpad_world)) = [scratchpad scratchpad_world]"
    by blast
  then show ?thesis
    by (simp add: scratchpad_world_facts startup_shown_simps before_try_shown try_prefix_shown
          before_try_early try_prefix_early)
qed

text \<open>
  The claim as stated fails in its last part: with \<^verbatim>\<open>-t\<close> the update check has been
  started and the translators and the event filter installed before the line is printed.
\<close>

theorem C3_counterexample:
  "QString_lit ''-t'' \<in> set (process_arguments scratchpad_world)
   \<and> UpdateChecker_CheckForUpdate \<in> set (fst (main linux_build scratchpad_world))
   \<and> installTranslator sigilTranslator \<in> set (fst (main linux_build scratchpad_world))
   \<and> installEventFilter \<in> set (fst (main linux_build scratchpad_world))"
  by (simp add: scratchpad_world_facts main_no_raise try_block_def try_prefix_def
        install_translations_def Let_def linux_build_def)

text \<open>
  Claim C5, as the code has it. The \<^verbatim>\<open>try\<close> block begins after the application
  object and the embedded Python paths are set up, and its handler takes
  \<^verbatim>\<open>std::exception\<close> only. When call \<open>k\<close> of the block is the first to throw and
  throws a \<^verbatim>\<open>std::exception\<close>, \<^verbatim>\<open>main\<close> has made the calls before it once each,
  shows one dialog and returns 1; nothing is retried and no later call is made. When it
  throws anything else, or when a call before the block throws, the exception leaves
  \<^verbatim>\<open>main\<close> and no dialog is shown.
\<close>

theorem C5_exception_boundary:
  "((\<forall>c\<in>set (before_try b w). raises w c = None)
      \<and> k < length (fst (try_block b w))
      \<and> (\<forall>j<k. raises w (fst (try_block b w) ! j) = None)
      \<and> raises w (fst (try_block b w) ! k) = Some StdException
      \<and> raises w (DisplayExceptionErrorDialog (QString_lit (std_exception_what b))) = None
    \<longrightarrow> main b w =
          (before_try b w @ take k (fst (try_block b w))
             @ [DisplayExceptionErrorDialog (QString_lit (std_exception_what b))],
           Exit 1)
        \<and> dialogs (fst (main b w)) = [QString_lit (std_exception_what b)])
   \<and> ((\<forall>c\<in>set (before_try b w). raises w c = None)
      \<and> k < length (fst (try_block b w))
      \<and> (\<forall>j<k. raises w (fst (try_block b w) ! j) = None)
      \<and> raises w (fst (try_block b w) ! k) = Some OtherException
    \<longrightarrow> main b w = (before_try b w @ take k (fst (try_block b w)), Terminate OtherException)
        \<and> dialogs (fst (main b w)) = [])
   \<and> (k < length (before_try b w)
      \<and> (\<forall>j<k. raises w (before_try b w ! j) = None)
      \<and> raises w (before_try b w ! k) = Some x
    \<longrightarrow> main b w = (take k (before_try b w), Terminate x)
        \<and> dialogs (fst (main b w)) = [])"
  by (auto simp: main_def perform_all perform_first_raise startup_shown_simps before_try_shown
        try_block_dialogs dialogs_take)

text \<open>The plugin scan throwing a \<^verbatim>\<open>std::exception\<close>, the plugin scan throwing something
  else, and \<^verbatim>\<open>EmbeddedPython::instance\<close> throwing.\<close>

theorem C5_witness:
  "main linux_build (plugins_fail_world StdException) =
     (before_try linux_build quiet_world @ try_prefix linux_build quiet_world
        @ [DisplayExceptionErrorDialog (QString_lit ''std::exception'')], Exit 1)
   \<and> main linux_build (plugins_fail_world OtherException) =
     (before_try linux_build quiet_world @ try_prefix linux_build quiet_world,
      Terminate OtherException)
   \<and> main linux_build python_fails_world =
     ([QT_REQUIRE_VERSION, qInstallMessageHandler, setOrganizationName, setOrganizationDomain,
       setApplicationName, setApplicationVersion, setAttribute_DisableShaderDiskCache,
       MainApplication_ctor, setStartDragDistance], Terminate StdException)"
proof -
  let ?std = "plugins_fail_world StdException" and ?other = "plugins_fail_world OtherException"
  have early: "\<And>x j. j < 16 \<Longrightarrow>
      raises (plugins_fail_world x) (fst (try_block linux_build (plugins_fail_world x)) ! j) = None"
  proof -
    fix x j assume j: "j < (16::nat)"
    then have "fst (try_block linux_build quiet_world) ! j = try_prefix linux_build quiet_world ! j"
      by (simp add: try_block_linux_quiet nth_append)
    moreover have "try_prefix linux_build quiet_world ! j \<in> set (try_prefix linux_build quiet_world)"
      using j by (simp add: try_block_linux_quiet)
    ultimately show "raises (plugins_fail_world x)
        (fst (try_block linux_build (plugins_fail_world x)) ! j) = None"
      using try_block_linux_quiet(3) by (auto simp: plugins_fail_world_same)
  qed
  have at: "\<And>x. fst (try_block linux_build (plugins_fail_world x)) ! 16 = load_plugins_from_disk"
    by (simp add: plugins_fail_world_same try_block_linux_quiet nth_append)
  have h1: "(\<forall>c\<in>set (before_try linux_build ?std). raises ?std c = None)
      \<and> 16 < length (fst (try_block linux_build ?std))
      \<and> (\<forall>j<16. raises ?std (fst (try_block linux_build ?std) ! j) = None)
      \<and> raises ?std (fst (try_block linux_build ?std) ! 16) = Some StdException
      \<and> raises ?std (DisplayExceptionErrorDialog (QString_lit (std_exception_what linux_build)))
          = None"
    using early[of _ StdException]
    by (simp add: at) (simp add: plugins_fail_world_same before_try_linux_quiet try_block_linux_quiet)
  have h2: "(\<forall>c\<in>set (before_try linux_build ?other). raises ?other c = None)
      \<and> 16 < length (fst (try_block linux_build ?other))
      \<and> (\<forall>j<16. raises ?other (fst (try_block linux_build ?other) ! j) = None)
      \<and> raises ?other (fst (try_block linux_build ?other) ! 16) = Some OtherException"
    using early[of _ OtherException]
    by (simp add: at) (simp add: plugins_fail_world_same before_try_linux_quiet try_block_linux_quiet)
  have h3: "9 < length (before_try linux_build python_fails_world)
      \<and> (\<forall>j<9. raises python_fails_world (before_try linux_build python_fails_world ! j) = None)
      \<and> raises python_fails_world (before_try linux_build python_fails_world ! 9)
          = Some StdException"
    by (simp add: python_fails_world_same before_try_linux_quiet less_Suc_eq numeral_nat)
  from C5_exception_boundary [of linux_build ?std 16 StdException] h1
  have c1: "main linux_build ?std =
      (before_try linux_build ?std @ take 16 (fst (try_block linux_build ?std))
         @ [DisplayExceptionErrorDialog (QString_lit (std_exception_what linux_build))], Exit 1)"
    by blast
  from C5_exception_boundary [of linux_build ?other 16 StdException] h2
  have c2: "main linux_build ?other =
      (before_try linux_build ?other @ take 16 (fst (try_block linux_build ?other)),
       Terminate OtherException)"
    by blast
  from C5_exception_boundary [of linux_build python_fails_world 9 StdException] h3
  have c3: "main linux_build python_fails_world =
      (take 9 (before_try linux_build python_fails_world), Terminate StdException)"
    by blast
  show ?thesis using c1 c2 c3
    by (simp add: plugins_fail_world_same python_fails_world_same try_block_linux_quiet
          before_try_linux_quiet linux_build_what)
qed

text \<open>
  The claim as stated fails for a call before the \<^verbatim>\<open>try\<close> block: its exception is
  not caught, no dialog is shown and no status is returned.
\<close>

theorem C5_counterexample:
  "raises python_fails_world EmbeddedPython_instance = Some StdException
   \<and> snd (main linux_build python_fails_world) = Terminate StdException
   \<and> dialogs (fst (main linux_build python_fails_world)) = []"
  by (simp add: python_fails_world_def quiet_world_def linux_build_def main_def before_try_def
        startup_shown_simps)

text \<open>
  Claim C6, as the code has it. \<^verbatim>\<open>main\<close> works with the process arguments, to which
  the macOS build appends the path of a start-up file-open event when there is no
  argument. When that list does not contain \<^verbatim>\<open>-t\<close> and no call throws, exactly one main
  window is constructed: with the list's second entry when there is one and
  \<^verbatim>\<open>Utility::IsFileReadable\<close> answers yes for it, with the empty path otherwise;
  \<^verbatim>\<open>main\<close> shows no dialog and returns what the event loop returns.
\<close>

theorem C6_initial_file:
  "(QString_lit ''-t'' \<notin> set (startup_arguments b w) \<and> (\<forall>c. raises w c = None)
    \<longrightarrow> main_windows (fst (main b w))
          = [if 1 < length (startup_arguments b w) \<and> file_readable w (startup_arguments b w ! 1)
             then startup_arguments b w ! 1 else []]
        \<and> dialogs (fst (main b w)) = []
        \<and> snd (main b w) = Exit (exec_result w))
   \<and> (os b \<noteq> MacOS \<longrightarrow> startup_arguments b w = process_arguments w)
   \<and> (os b = MacOS
    \<longrightarrow> startup_arguments b w
          = (if length (process_arguments w) = 1 \<and> initial_file_path w \<noteq> []
             then process_arguments w @ [absoluteFilePath w (initial_file_path w)]
             else process_arguments w))"
  by (auto simp: main_no_raise try_block_def try_rest_window startup_shown_simps
        before_try_shown try_prefix_shown GetMainWindow_shown GetMainWindow_filepath_def
        startup_arguments_def Let_def)

text \<open>A readable file as first argument, and no argument.\<close>

theorem C6_witness:
  "main_windows (fst (main linux_build book_world)) = [QString_lit ''/b.epub'']
   \<and> main_windows (fst (main linux_build quiet_world)) = [[]]
   \<and> dialogs (fst (main linux_build quiet_world)) = []"
proof -
  have h1: "QString_lit ''-t'' \<notin> set (startup_arguments linux_build book_world)
      \<and> (\<forall>c. raises book_world c = None)"
    by (simp add: book_world_facts not_minus_t)
  have h2: "QString_lit ''-t'' \<notin> set (startup_arguments linux_build quiet_world)
      \<and> (\<forall>c. raises quiet_world c = None)"
    by (simp add: quiet_world_facts not_minus_t)
  from C6_initial_file [of linux_build book_world] h1
  have c1: "main_windows (fst (main linux_build book_world))
      = [if 1 < length (startup_arguments linux_build book_world)
            \<and> file_readable book_world (startup_arguments linux_build book_world ! 1)
         then startup_arguments linux_build book_world ! 1 else []]"
    by blast
  from C6_initial_file [of linux_build quiet_world] h2
  have c2: "main_windows (fst (main linux_build quiet_world))
      = [if 1 < length (startup_arguments linux_build quiet_world)
            \<and> file_readable quiet_world (startup_arguments linux_build quiet_world ! 1)
         then startup_arguments linux_build quiet_world ! 1 else []]"
    and c3: "dialogs (fst (main linux_build quiet_world)) = []"
    by blast+
  show ?thesis using c1 c2 c3
    by (simp add: book_world_facts quiet_world_facts)
qed

text \<open>
  The claim as stated fails on macOS: with no argument and a file-open event at
  start-up, the main window is constructed with that file's path, not with the empty
  path.
\<close>

theorem C6_counterexample:
  "process_arguments file_open_world = [QString_lit ''sigil'']
   \<and> main_windows (fst (main mac_build file_open_world)) = [QString_lit ''/b.epub'']"
  by (simp add: file_open_world_facts main_no_raise try_block_def try_rest_window not_minus_t
        startup_shown_simps before_try_shown try_prefix_shown GetMainWindow_shown
        GetMainWindow_filepath_def)

text \<open>
  Claim C7. In every run of \<^verbatim>\<open>main\<close>, whatever the arguments and whichever call
  throws, the plugin scan has been made, and has returned, before a main window is
  constructed and before it is shown. Without \<^verbatim>\<open>-t\<close> and with no call throwing, the
  run is: the calls before the test of the arguments, the plugin scan, the construction
  of the main window, its showing, the event loop.
\<close>

theorem C7_plugins_before_window:
  "(\<forall>pre post p. fst (main b w) = pre @ MainWindow_ctor p # post
        \<longrightarrow> load_plugins_from_disk \<in> set pre)
   \<and> (\<forall>pre post. fst (main b w) = pre @ MainWindow_show # post
        \<longrightarrow> load_plugins_from_disk \<in> set pre)
   \<and> (QString_lit ''-t'' \<notin> set (startup_arguments b w) \<and> (\<forall>c. raises w c = None)
        \<longrightarrow> fst (main b w) =
              before_try b w @ try_prefix b w
                @ (if os b = MacOS then [mac_menubar_setup, basemw_show] else [])
                @ load_plugins_from_disk # GetMainWindow w (startup_arguments b w)
                @ [MainWindow_show, app_exec])"
proof (intro conjI allI impI)
  fix pre post p
  assume "fst (main b w) = pre @ MainWindow_ctor p # post"
  then show "load_plugins_from_disk \<in> set pre"
    by (intro window_after_plugins[of "MainWindow_ctor p" b w pre post]) auto
next
  fix pre post
  assume "fst (main b w) = pre @ MainWindow_show # post"
  then show "load_plugins_from_disk \<in> set pre"
    by (intro window_after_plugins[of MainWindow_show b w pre post]) auto
next
  assume "QString_lit ''-t'' \<notin> set (startup_arguments b w) \<and> (\<forall>c. raises w c = None)"
  then show "fst (main b w) =
              before_try b w @ try_prefix b w
                @ (if os b = MacOS then [mac_menubar_setup, basemw_show] else [])
                @ load_plugins_from_disk # GetMainWindow w (startup_arguments b w)
                @ [MainWindow_show, app_exec]"
    by (simp add: main_no_raise try_block_def try_rest_window)
qed

text \<open>No argument, nothing throwing: the run splits at the construction of the window,
  and the plugin scan is in the part before it.\<close>

theorem C7_witness:
  "fst (main linux_build quiet_world) =
     (before_try linux_build quiet_world @ try_prefix linux_build quiet_world
        @ [load_plugins_from_disk]) @ MainWindow_ctor [] # [MainWindow_show, app_exec]
   \<and> load_plugins_from_disk
       \<in> set (before_try linux_build quiet_world @ try_prefix linux_build quiet_world
               @ [load_plugins_from_disk])"
proof -
  have h: "QString_lit ''-t'' \<notin> set (startup_arguments linux_build quiet_world)
      \<and> (\<forall>c. raises quiet_world c = None)"
    by (simp add: quiet_world_facts not_minus_t)
  from C7_plugins_before_window [of linux_build quiet_world] h
  have "fst (main linux_build quiet_world) =
      before_try linux_build quiet_world @ try_prefix linux_build quiet_world
        @ (if os linux_build = MacOS then [mac_menubar_setup, basemw_show] else [])
        @ load_plugins_from_disk
          # GetMainWindow quiet_world (startup_arguments linux_build quiet_world)
        @ [MainWindow_show, app_exec]"
    by blast
  then have split: "fst (main linux_build quiet_world) =
      (before_try linux_build quiet_world @ try_prefix linux_build quiet_world
        @ [load_plugins_from_disk]) @ MainWindow_ctor [] # [MainWindow_show, app_exec]"
    by (simp add: quiet_world_facts GetMainWindow_def GetMainWindow_filepath_def linux_build_os)
  from C7_plugins_before_window [of linux_build quiet_world] split
  have "load_plugins_from_disk
       \<in> set (before_try linux_build quiet_world @ try_prefix linux_build quiet_world
               @ [load_plugins_from_disk])"
    by blast
  with split show ?thesis by blast
qed

end
